theory Spec2Isabelle
  imports Main "HOL-Library.Multiset"
begin

section \<open>JavaScript values, errors and property lookup\<close>

text \<open>
  The repository is JavaScript (Node.js, POSIX paths). Strings are byte lists and are
  taken to be ASCII; JavaScript numbers are modelled by \<open>int\<close> (the tables and the
  tests of the repository only use integers). A value read from an object is a
  \<open>jsval option\<close>, where \<open>None\<close> is JavaScript's \<open>undefined\<close>.
\<close>

datatype jsval = JNum int | JStr string | JBool bool | JNull | JArr "string list"

type_synonym js_object = "(string \<times> jsval) list"

text \<open>
  Thrown values. \<open>Error m\<close> is \<open>new Error(m)\<close>; \<open>TypeError p\<close> is the runtime's
  TypeError for reading (or calling) property \<open>p\<close> of \<open>undefined\<close> (its message is
  kept without the quotes around \<open>p\<close>); \<open>ServiceError n m\<close> is an error object of an
  external client with name \<open>n\<close> and message \<open>m\<close>.
\<close>

datatype js_error = Error string | TypeError string | ServiceError string string

fun error_name :: "js_error \<Rightarrow> string" where
  "error_name (Error m) = ''Error''"
| "error_name (TypeError p) = ''TypeError''"
| "error_name (ServiceError n m) = n"

fun error_message :: "js_error \<Rightarrow> string" where
  "error_message (Error m) = m"
| "error_message (TypeError p) = ''Cannot read properties of undefined (reading '' @ p @ '')''"
| "error_message (ServiceError n m) = m"

text \<open>
  \<open>error.stack\<close>: the header line that \<open>Error.prototype.toString\<close> produces, followed by
  the call frames captured by the runtime (an input of the model).
\<close>

definition error_stack :: "string \<Rightarrow> js_error \<Rightarrow> string" where
  "error_stack frames e =
     (if error_name e = [] then error_message e
      else if error_message e = [] then error_name e
      else error_name e @ '': '' @ error_message e) @ frames"

text \<open>JavaScript truthiness of a value that may be \<open>undefined\<close>.\<close>

fun truthy :: "jsval option \<Rightarrow> bool" where
  "truthy None = False"
| "truthy (Some (JNum n)) = (n \<noteq> 0)"
| "truthy (Some (JStr s)) = (s \<noteq> [])"
| "truthy (Some (JBool b)) = b"
| "truthy (Some JNull) = False"
| "truthy (Some (JArr xs)) = True"

text \<open>Decimal rendering of a number inside a template literal.\<close>

fun show_nat :: "nat \<Rightarrow> string" where
  "show_nat n =
     (if n < 10 then [char_of (48 + n)]
      else show_nat (n div 10) @ [char_of (48 + n mod 10)])"

declare show_nat.simps [simp del]

definition show_int :: "int \<Rightarrow> string" where
  "show_int i = (if i < 0 then CHR ''-'' # show_nat (nat (- i)) else show_nat (nat i))"

text \<open>\<open>Array.prototype.join\<close>.\<close>

fun join :: "string \<Rightarrow> string list \<Rightarrow> string" where
  "join sep [] = []"
| "join sep [x] = x"
| "join sep (x # y # ys) = x @ sep @ join sep (y # ys)"

text \<open>String conversion of a value inside a template literal.\<close>

fun js_to_string :: "jsval \<Rightarrow> string" where
  "js_to_string (JNum n) = show_int n"
| "js_to_string (JStr s) = s"
| "js_to_string (JBool b) = (if b then ''true'' else ''false'')"
| "js_to_string JNull = ''null''"
| "js_to_string (JArr xs) = join '','' xs"

text \<open>
  An object literal is the list of its properties in source order; a later property
  with the same key overrides an earlier one (as the spread \<open>...mutateAdvanced\<close> does).
\<close>

definition js_prop :: "js_object \<Rightarrow> string \<Rightarrow> jsval option" where
  "js_prop obj k = map_of (rev obj) k"

text \<open>
  The three configuration tables are plain object literals, so \<open>TABLE[key]\<close> also finds
  the members every object inherits from \<open>Object.prototype\<close>. All of them are truthy
  (eleven functions and the \<open>__proto__\<close> accessor, which yields \<open>Object.prototype\<close>).
\<close>

definition object_prototype_keys :: "string list" where
  "object_prototype_keys =
     [''constructor'', ''__defineGetter__'', ''__defineSetter__'', ''hasOwnProperty'',
      ''__lookupGetter__'', ''__lookupSetter__'', ''isPrototypeOf'',
      ''propertyIsEnumerable'', ''toString'', ''valueOf'', ''__proto__'',
      ''toLocaleString'']"

datatype 'a js_lookup = Own 'a | Inherited string | Undefined

definition js_get :: "(string \<times> 'a) list \<Rightarrow> string \<Rightarrow> 'a js_lookup" where
  "js_get tbl k =
     (case map_of tbl k of
        Some v \<Rightarrow> Own v
      | None \<Rightarrow> if k \<in> set object_prototype_keys then Inherited k else Undefined)"

text \<open>
  The \<open>name\<close> property of an inherited member: a function's own name
  (\<open>Object\<close> for \<open>constructor\<close>), and \<open>undefined\<close> for \<open>Object.prototype\<close> itself.
\<close>

definition inherited_name :: "string \<Rightarrow> jsval option" where
  "inherited_name k =
     (if k = ''__proto__'' then None
      else if k = ''constructor'' then Some (JStr ''Object'')
      else Some (JStr k))"

text \<open>\<open>String.prototype.trim\<close> on ASCII white space.\<close>

definition is_space :: "char \<Rightarrow> bool" where
  "is_space c = (c \<in> set [CHR '' '', CHR 0x09, CHR 0x0A, CHR 0x0B, CHR 0x0C, CHR 0x0D])"

definition trim :: "string \<Rightarrow> string" where
  "trim s = rev (dropWhile is_space (rev (dropWhile is_space s)))"

section \<open>Node's \<open>path.parse\<close> and \<open>path.basename\<close> (POSIX)\<close>

text \<open>
  The controller derives the output key with \<open>path.parse\<close>. The function is Node's, not
  the repository's; it is transcribed here from Node's \<open>lib/path.js\<close> (\<open>posix.parse\<close>):
  one backwards scan that finds the last path component and its extension.
\<close>

record parse_state =
  startDot :: int
  startPart :: nat
  endIdx :: int
  matchedSlash :: bool
  preDotState :: int

fun parse_loop :: "string \<Rightarrow> nat \<Rightarrow> nat \<Rightarrow> parse_state \<Rightarrow> parse_state" where
  "parse_loop path start 0 st = st"
| "parse_loop path start (Suc i) st =
     (if i < start then st
      else if path ! i = CHR ''/'' then
        (if \<not> matchedSlash st then st\<lparr>startPart := i + 1\<rparr>
         else parse_loop path start i st)
      else
        (let st1 = (if endIdx st = -1
                    then st\<lparr>matchedSlash := False, endIdx := int i + 1\<rparr> else st);
             st2 = (if path ! i = CHR ''.'' then
                      (if startDot st1 = -1 then st1\<lparr>startDot := int i\<rparr>
                       else if preDotState st1 \<noteq> 1 then st1\<lparr>preDotState := 1\<rparr>
                       else st1)
                    else if startDot st1 \<noteq> -1 then st1\<lparr>preDotState := -1\<rparr>
                    else st1)
         in parse_loop path start i st2))"

definition slice :: "string \<Rightarrow> nat \<Rightarrow> nat \<Rightarrow> string" where
  "slice s a b = take (b - a) (drop a s)"

record parsed_path =
  root :: string
  dir :: string
  base :: string
  ext :: string
  name :: string

definition path_parse :: "string \<Rightarrow> parsed_path" where
  "path_parse path =
     (if path = [] then \<lparr>root = [], dir = [], base = [], ext = [], name = []\<rparr>
      else
        (let isAbsolute = (hd path = CHR ''/'');
             start = (if isAbsolute then 1 else 0);
             st = parse_loop path start (length path)
                    \<lparr>startDot = -1, startPart = 0, endIdx = -1,
                     matchedSlash = True, preDotState = 0\<rparr>;
             ret0 = \<lparr>root = (if isAbsolute then ''/'' else []),
                     dir = [], base = [], ext = [], name = []\<rparr>;
             ret1 = (if endIdx st \<noteq> -1 then
                       (let s = (if startPart st = 0 \<and> isAbsolute then 1 else startPart st);
                            e = nat (endIdx st)
                        in if startDot st = -1 \<or> preDotState st = 0 \<or>
                              (preDotState st = 1 \<and> startDot st = endIdx st - 1 \<and>
                               startDot st = int (startPart st) + 1)
                           then ret0\<lparr>base := slice path s e, name := slice path s e\<rparr>
                           else ret0\<lparr>name := slice path s (nat (startDot st)),
                                     base := slice path s e,
                                     ext := slice path (nat (startDot st)) e\<rparr>)
                     else ret0)
         in if startPart st > 0 then ret1\<lparr>dir := slice path 0 (startPart st - 1)\<rparr>
            else if isAbsolute then ret1\<lparr>dir := ''/''\<rparr>
            else ret1))"

text \<open>
  \<open>path.basename(p)\<close> without a suffix returns the last component with trailing
  separators dropped, the string that \<open>path.parse(p).base\<close> holds.
\<close>

definition path_basename :: "string \<Rightarrow> string" where
  "path_basename path = base (path_parse path)"

section \<open>The configuration tables (\<open>ffmpeg-utils.js\<close>)\<close>

record scale_options =
  maintainAspectRatio :: "bool option"
  force :: "bool option"
  algorithm :: "string option"

text \<open>
  A filter configuration is an object with the optional keys \<open>scale\<close>, \<open>fps\<close>,
  \<open>deinterlace\<close>, \<open>denoise\<close>, \<open>crop\<close>, \<open>pad\<close> and \<open>custom\<close>. It is modelled by the list
  of its entries in insertion order; the constructor of an entry is its key.
\<close>

datatype filter_entry =
    Scale int int "scale_options option"
  | Fps int
  | Deinterlace bool
  | Denoise "jsval option"
  | Crop int int "int option" "int option"
  | Pad int int "int option" "int option" "string option"
  | Custom "string list"

datatype filter_key = KScale | KFps | KDeinterlace | KDenoise | KCrop | KPad | KCustom

fun key_of :: "filter_entry \<Rightarrow> filter_key" where
  "key_of (Scale w h opts) = KScale"
| "key_of (Fps n) = KFps"
| "key_of (Deinterlace b) = KDeinterlace"
| "key_of (Denoise s) = KDenoise"
| "key_of (Crop w h x y) = KCrop"
| "key_of (Pad w h x y c) = KPad"
| "key_of (Custom xs) = KCustom"

text \<open>\<open>filters.key\<close>: the entry stored under a key (the last one written).\<close>

definition filter_prop :: "filter_entry list \<Rightarrow> filter_key \<Rightarrow> filter_entry option" where
  "filter_prop filters k = List.find (\<lambda>e. key_of e = k) (rev filters)"

record video_codec =
  vc_name :: string
  vc_extension :: string
  vc_quality_min :: int
  vc_quality_max :: int
  vc_quality_default :: int
  vc_presets :: "string list"
  vc_default_crf :: int
  vc_default_preset :: string
  vc_default_width :: int
  vc_default_height :: int

record audio_codec =
  ac_name :: string
  ac_bitrates :: "string list"
  ac_default_bitrate :: string

record quality_preset =
  qp_width :: int
  qp_height :: int
  qp_crf :: int
  qp_preset :: string
  qp_filters :: "filter_entry list"
  qp_advanced :: js_object

text \<open>The \<open>presets\<close> of the codec are the strings \<open>"0"\<close> to \<open>"13"\<close>.\<close>

definition VIDEO_CODECS :: "(string \<times> video_codec) list" where
  "VIDEO_CODECS =
     [(''av1'',
       \<lparr>vc_name = ''libsvtav1'', vc_extension = ''mp4'',
        vc_quality_min = 0, vc_quality_max = 63, vc_quality_default = 49,
        vc_presets = map show_nat [0..<14],
        vc_default_crf = 60, vc_default_preset = ''16'',
        vc_default_width = 896, vc_default_height = 504\<rparr>)]"

definition AUDIO_CODECS :: "(string \<times> audio_codec) list" where
  "AUDIO_CODECS =
     [(''aac'',
       \<lparr>ac_name = ''aac'', ac_bitrates = [''96k'', ''128k'', ''320k''],
        ac_default_bitrate = ''96k''\<rparr>)]"

definition QUALITY_TO_PRESETS :: "(string \<times> quality_preset) list" where
  "QUALITY_TO_PRESETS =
     [(''1080p60av1'',
       \<lparr>qp_width = 1920, qp_height = 1080, qp_crf = 49, qp_preset = ''10'',
        qp_filters = [Fps 60],
        qp_advanced =
          [(''additionalArgs'',
            JArr [''-svtav1-params'',
                  ''hierarchical-levels=3:keyint=180:lookahead=11:lp=14:scm=0''])]\<rparr>),
      (''1080p30av1'',
       \<lparr>qp_width = 1920, qp_height = 1080, qp_crf = 49, qp_preset = ''10'',
        qp_filters = [Fps 30],
        qp_advanced =
          [(''additionalArgs'',
            JArr [''-svtav1-params'',
                  ''hierarchical-levels=2:keyint=90:lookahead=11:lp=10:scm=0:enable-tf=0''])]\<rparr>),
      (''720p30av1'',
       \<lparr>qp_width = 1280, qp_height = 720, qp_crf = 49, qp_preset = ''12'',
        qp_filters = [Fps 30],
        qp_advanced =
          [(''additionalArgs'',
            JArr [''-svtav1-params'',
                  ''hierarchical-levels=2:keyint=90:lookahead=11:lp=10:scm=0:enable-tf=0''])]\<rparr>)]"

section \<open>The Configuration Resolver (\<open>ffmpeg-utils.js\<close>)\<close>

text \<open>\<open>generateScaleFilter(targetWidth, targetHeight, options = {})\<close>.\<close>

definition generateScaleFilter :: "int \<Rightarrow> int \<Rightarrow> scale_options option \<Rightarrow> string" where
  "generateScaleFilter targetWidth targetHeight options =
     (let opts = (case options of
                    None \<Rightarrow> \<lparr>maintainAspectRatio = None, force = None, algorithm = None\<rparr>
                  | Some v \<Rightarrow> v);
          keepRatio = (case maintainAspectRatio opts of None \<Rightarrow> True | Some b \<Rightarrow> b);
          forced = (case force opts of None \<Rightarrow> False | Some b \<Rightarrow> b);
          alg = (case algorithm opts of None \<Rightarrow> ''bicubic'' | Some a \<Rightarrow> a)
      in if keepRatio \<and> \<not> forced
         then ''scale='' @ show_int targetWidth @ '':'' @ show_int targetHeight
              @ '':force_original_aspect_ratio=decrease:flags='' @ alg
         else ''scale='' @ show_int targetWidth @ '':'' @ show_int targetHeight
              @ '':flags='' @ alg)"

text \<open>
  \<open>generateVideoFilters(filters)\<close>: seven \<open>if\<close> statements in a fixed sequence, each
  pushing onto \<open>filterChain\<close>. Each of the following functions is one of them.
\<close>

definition scale_part :: "filter_entry list \<Rightarrow> string list" where
  "scale_part filters =
     (case filter_prop filters KScale of
        Some (Scale w h opts) \<Rightarrow> [generateScaleFilter w h opts]
      | _ \<Rightarrow> [])"

definition fps_part :: "filter_entry list \<Rightarrow> string list" where
  "fps_part filters =
     (case filter_prop filters KFps of
        Some (Fps n) \<Rightarrow> (if n \<noteq> 0 then [''fps='' @ show_int n] else [])
      | _ \<Rightarrow> [])"

definition deinterlace_part :: "filter_entry list \<Rightarrow> string list" where
  "deinterlace_part filters =
     (case filter_prop filters KDeinterlace of
        Some (Deinterlace b) \<Rightarrow> (if b then [''yadif''] else [])
      | _ \<Rightarrow> [])"

definition denoise_part :: "filter_entry list \<Rightarrow> string list" where
  "denoise_part filters =
     (case filter_prop filters KDenoise of
        Some (Denoise strength) \<Rightarrow>
          [''hqdn3d='' @ (if truthy strength then js_to_string (the strength) else ''default'')]
      | _ \<Rightarrow> [])"

definition crop_part :: "filter_entry list \<Rightarrow> string list" where
  "crop_part filters =
     (case filter_prop filters KCrop of
        Some (Crop w h x y) \<Rightarrow>
          [''crop='' @ show_int w @ '':'' @ show_int h @ '':''
           @ show_int (case x of None \<Rightarrow> 0 | Some v \<Rightarrow> v) @ '':''
           @ show_int (case y of None \<Rightarrow> 0 | Some v \<Rightarrow> v)]
      | _ \<Rightarrow> [])"

definition pad_part :: "filter_entry list \<Rightarrow> string list" where
  "pad_part filters =
     (case filter_prop filters KPad of
        Some (Pad w h x y color) \<Rightarrow>
          [''pad='' @ show_int w @ '':'' @ show_int h @ '':''
           @ show_int (case x of None \<Rightarrow> 0 | Some v \<Rightarrow> v) @ '':''
           @ show_int (case y of None \<Rightarrow> 0 | Some v \<Rightarrow> v) @ '':''
           @ (case color of None \<Rightarrow> ''black'' | Some c \<Rightarrow> c)]
      | _ \<Rightarrow> [])"

definition custom_part :: "filter_entry list \<Rightarrow> string list" where
  "custom_part filters =
     (case filter_prop filters KCustom of
        Some (Custom xs) \<Rightarrow> xs
      | _ \<Rightarrow> [])"

definition filterChain :: "filter_entry list \<Rightarrow> string list" where
  "filterChain filters =
     scale_part filters @ fps_part filters @ deinterlace_part filters
     @ denoise_part filters @ crop_part filters @ pad_part filters @ custom_part filters"

definition generateVideoFilters :: "filter_entry list \<Rightarrow> string list" where
  "generateVideoFilters filters =
     (if filterChain filters \<noteq> [] then [''-vf'', join '','' (filterChain filters)] else [])"

text \<open>\<open>validateInput(input)\<close>, on \<open>input.path\<close>.\<close>

definition validateInput :: "string option \<Rightarrow> js_error + unit" where
  "validateInput path =
     (if path = None \<or> path = Some [] then Inl (Error ''Input path is required'')
      else Inr ())"

text \<open>\<open>typeof v === "number"\<close> and the number itself.\<close>

fun is_number :: "jsval option \<Rightarrow> bool" where
  "is_number (Some (JNum n)) = True"
| "is_number v = False"

fun number_of :: "jsval option \<Rightarrow> int" where
  "number_of (Some (JNum n)) = n"
| "number_of v = 0"

text \<open>\<open>validateOutput(output)\<close>.\<close>

definition validateOutput :: "js_object \<Rightarrow> js_error + unit" where
  "validateOutput output =
     (let width = js_prop output ''width''; height = js_prop output ''height'';
          framerate = js_prop output ''framerate''; crf = js_prop output ''crf''
      in if truthy width \<and> (\<not> is_number width \<or> number_of width \<le> 0)
         then Inl (Error ''Output width must be a positive number'')
         else if truthy height \<and> (\<not> is_number height \<or> number_of height \<le> 0)
         then Inl (Error ''Output height must be a positive number'')
         else if truthy framerate \<and> (\<not> is_number framerate \<or> number_of framerate \<le> 0)
         then Inl (Error ''Output framerate must be a positive number'')
         else if truthy crf \<and> (\<not> is_number crf \<or> number_of crf < 0 \<or> number_of crf > 51)
         then Inl (Error ''CRF must be a number between 0 and 51'')
         else Inr ())"

text \<open>
  The options of \<open>createTranscodingConfig\<close>. \<open>None\<close> is an omitted option, which takes
  the default of the destructuring pattern; an omitted \<open>filters\<close> or \<open>advanced\<close> is the
  empty list, as its default \<open>{}\<close> is.
\<close>

record transcoding_options =
  opt_input_path :: "string option"
  opt_quality :: "string option"
  opt_videoCodec :: "string option"
  opt_audioCodec :: "string option"
  opt_format :: "string option"
  opt_filters :: "filter_entry list"
  opt_advanced :: js_object

record transcoding_config =
  cfg_input_path :: string
  cfg_output :: js_object

text \<open>
  The property initialisers of an object literal are evaluated in order; the first one
  that throws aborts the literal, and a property whose value is \<open>undefined\<close> reads as
  \<open>undefined\<close>, so it is left out of the list.
\<close>

fun build_object :: "(string \<times> (js_error + jsval option)) list \<Rightarrow> js_error + js_object" where
  "build_object [] = Inr []"
| "build_object ((k, Inl e) # rest) = Inl e"
| "build_object ((k, Inr v) # rest) =
     (case build_object rest of
        Inl e \<Rightarrow> Inl e
      | Inr obj \<Rightarrow> Inr (case v of None \<Rightarrow> obj | Some x \<Rightarrow> (k, x) # obj))"

text \<open>\<open>a || b\<close>, where evaluating \<open>b\<close> may throw.\<close>

definition or_else :: "jsval option \<Rightarrow> (js_error + jsval option) \<Rightarrow> js_error + jsval option" where
  "or_else a b = (if truthy a then Inr a else b)"

text \<open>\<open>qualityConfig?.field\<close> for a numeric and for a string field of a preset.\<close>

definition preset_num :: "quality_preset js_lookup \<Rightarrow> (quality_preset \<Rightarrow> int) \<Rightarrow> jsval option" where
  "preset_num qualityConfig field =
     (case qualityConfig of Own q \<Rightarrow> Some (JNum (field q)) | _ \<Rightarrow> None)"

definition preset_str :: "quality_preset js_lookup \<Rightarrow> (quality_preset \<Rightarrow> string) \<Rightarrow> jsval option" where
  "preset_str qualityConfig field =
     (case qualityConfig of Own q \<Rightarrow> Some (JStr (field q)) | _ \<Rightarrow> None)"

text \<open>
  \<open>codecConfig.default.field\<close>: an inherited member has no \<open>default\<close>, so the read of
  \<open>field\<close> throws.
\<close>

definition codec_default :: "'c js_lookup \<Rightarrow> ('c \<Rightarrow> jsval) \<Rightarrow> string \<Rightarrow> js_error + jsval option" where
  "codec_default codecConfig field k =
     (case codecConfig of Own c \<Rightarrow> Inr (Some (field c)) | _ \<Rightarrow> Inl (TypeError k))"

text \<open>\<open>codecConfig.name\<close>.\<close>

definition codec_name :: "'c js_lookup \<Rightarrow> ('c \<Rightarrow> string) \<Rightarrow> jsval option" where
  "codec_name codecConfig field =
     (case codecConfig of
        Own c \<Rightarrow> Some (JStr (field c))
      | Inherited k \<Rightarrow> inherited_name k
      | Undefined \<Rightarrow> None)"

text \<open>
  \<open>(config.output.additionalArgs || []).concat(filterArgs)\<close>: array concatenation, string
  concatenation when a string was supplied, and a TypeError for a number or \<open>true\<close>,
  which have no \<open>concat\<close>.
\<close>

definition concat_args :: "jsval option \<Rightarrow> string list \<Rightarrow> js_error + jsval" where
  "concat_args additionalArgs filterArgs =
     (if \<not> truthy additionalArgs then Inr (JArr filterArgs)
      else case additionalArgs of
             Some (JArr xs) \<Rightarrow> Inr (JArr (xs @ filterArgs))
           | Some (JStr s) \<Rightarrow> Inr (JStr (s @ join '','' filterArgs))
           | _ \<Rightarrow> Inl (TypeError ''concat''))"

text \<open>
  The body of \<open>createTranscodingConfig(options)\<close>, with the lookup in the preset table
  as a parameter (\<open>presets quality\<close> is \<open>QUALITY_TO_PRESETS[quality]\<close>), so that
  statements can compare preset tables. \<open>mutateFilters\<close> and \<open>mutateAdvanced\<close> may be
  \<open>undefined\<close> (\<open>None\<close>) when the quality name resolves to an inherited member.
\<close>

definition createTranscodingConfigFrom ::
  "(string \<Rightarrow> quality_preset js_lookup) \<Rightarrow> transcoding_options
     \<Rightarrow> js_error + transcoding_config" where
  "createTranscodingConfigFrom presets options =
     (let quality = (case opt_quality options of None \<Rightarrow> ''720p30av1'' | Some q \<Rightarrow> q);
          videoCodec = (case opt_videoCodec options of None \<Rightarrow> ''av1'' | Some c \<Rightarrow> c);
          audioCodec = (case opt_audioCodec options of None \<Rightarrow> ''aac'' | Some c \<Rightarrow> c);
          format = (case opt_format options of None \<Rightarrow> ''mp4'' | Some f \<Rightarrow> f);
          filters = opt_filters options;
          advanced = opt_advanced options
      in case validateInput (opt_input_path options) of
           Inl e \<Rightarrow> Inl e
         | Inr u \<Rightarrow>
      (let videoCodecConfig = js_get VIDEO_CODECS videoCodec;
           audioCodecConfig = js_get AUDIO_CODECS audioCodec;
           qualityConfig = presets quality
       in if videoCodecConfig = Undefined
          then Inl (Error (''Unsupported video codec: '' @ videoCodec))
          else if audioCodecConfig = Undefined
          then Inl (Error (''Unsupported audio codec: '' @ audioCodec))
          else
            case (if filters = [] then
                    (case qualityConfig of
                       Own q \<Rightarrow> Inr (Some (qp_filters q))
                     | Inherited k \<Rightarrow> Inr None
                     | Undefined \<Rightarrow> Inl (TypeError ''filters''))
                  else Inr (Some filters)) of
              Inl e \<Rightarrow> Inl e
            | Inr mutateFilters \<Rightarrow>
            case (if advanced = [] then
                    (case qualityConfig of
                       Own q \<Rightarrow> Inr (Some (qp_advanced q))
                     | Inherited k \<Rightarrow> Inr None
                     | Undefined \<Rightarrow> Inl (TypeError ''advanced''))
                  else Inr (Some advanced)) of
              Inl e \<Rightarrow> Inl e
            | Inr mutateAdvanced \<Rightarrow>
            case build_object
                   [(''videoCodec'', Inr (codec_name videoCodecConfig vc_name)),
                    (''audioCodec'', Inr (codec_name audioCodecConfig ac_name)),
                    (''format'', Inr (Some (JStr format))),
                    (''crf'', or_else (preset_num qualityConfig qp_crf)
                       (codec_default videoCodecConfig (\<lambda>c. JNum (vc_default_crf c)) ''crf'')),
                    (''preset'', or_else (preset_str qualityConfig qp_preset)
                       (codec_default videoCodecConfig (\<lambda>c. JStr (vc_default_preset c)) ''preset'')),
                    (''width'', or_else (preset_num qualityConfig qp_width)
                       (codec_default videoCodecConfig (\<lambda>c. JNum (vc_default_width c)) ''width'')),
                    (''height'', or_else (preset_num qualityConfig qp_height)
                       (codec_default videoCodecConfig (\<lambda>c. JNum (vc_default_height c)) ''height'')),
                    (''audioBitrate'', or_else None
                       (codec_default audioCodecConfig (\<lambda>c. JStr (ac_default_bitrate c)) ''bitrate''))] of
              Inl e \<Rightarrow> Inl e
            | Inr literal \<Rightarrow>
            (let output = literal @ (case mutateAdvanced of None \<Rightarrow> [] | Some a \<Rightarrow> a)
             in case mutateFilters of
                  None \<Rightarrow> Inl (TypeError ''scale'')
                | Some fs \<Rightarrow>
                (let filterArgs = generateVideoFilters fs
                 in case (if filterArgs \<noteq> [] then
                            (case concat_args (js_prop output ''additionalArgs'') filterArgs of
                               Inl e \<Rightarrow> Inl e
                             | Inr v \<Rightarrow> Inr (output @ [(''additionalArgs'', v)]))
                          else Inr output) of
                      Inl e \<Rightarrow> Inl e
                    | Inr output' \<Rightarrow>
                      (case validateOutput output' of
                         Inl e \<Rightarrow> Inl e
                       | Inr u' \<Rightarrow>
                           Inr \<lparr>cfg_input_path = the (opt_input_path options),
                                cfg_output = output'\<rparr>)))))"

text \<open>\<open>createTranscodingConfig(options)\<close>, on the table of the source.\<close>

definition createTranscodingConfig :: "transcoding_options \<Rightarrow> js_error + transcoding_config" where
  "createTranscodingConfig options =
     createTranscodingConfigFrom (js_get QUALITY_TO_PRESETS) options"

section \<open>The Job Store (\<open>transcoding_jobs\<close> through the data access layer)\<close>

datatype job_state = Waiting | Progressing | Completed | Failed

text \<open>
  The body of a callback, \<open>{success, detail}\<close>, with the detail object the worker sends;
  \<open>success\<close> is the boolean of the callback interface. In \<open>detail\<close> an absent string
  property and the empty string are both falsy; both are the empty string here.
\<close>

record job_detail =
  d_inputS3Key :: string
  d_outputS3Key :: string
  d_quality :: string
  d_jobId :: string
  d_jobDuration :: string
  d_command :: string
  d_errorStack :: string

record callback_body =
  cb_success :: bool
  cb_detail :: "job_detail option"

text \<open>
  A row of \<open>transcoding_jobs\<close> (\<open>scripts/create-sqlite-db.sh\<close>). \<open>callback_data\<close> holds
  \<open>JSON.stringify(req.body)\<close> and is read back with \<open>JSON.parse\<close>; the model keeps the
  body itself. A \<open>NULL\<close> column is \<open>None\<close>.
\<close>

record job_row =
  job_id :: string
  job_state :: job_state
  input_s3_key :: string
  output_s3_key :: "string option"
  target_quality :: string
  submit_ts :: nat
  callback_data :: "callback_body option"

text \<open>The \<open>data\<close> object of an \<open>UPDATE\<close>: the columns it sets.\<close>

record update_data =
  set_job_state :: "job_state option"
  set_callback_data :: "callback_body option"
  set_output_s3_key :: "string option"

record worker_args =
  arg_jobId :: string
  arg_s3Key :: string
  arg_outputS3Key :: string
  arg_resolutionPreset :: string

text \<open>
  What the controller module acts on: the database (whether it answers, and the rows of
  the table in insertion order) and the worker processes spawned so far. The SQLite layer
  catches every database error and returns \<open>success: false\<close>. The database answers or
  fails for all statements of one handler alike; a fault between two statements of the
  same handler is not modelled.
\<close>

record orchestrator =
  db_up :: bool
  db_rows :: "job_row list"
  spawned :: "worker_args list"

text \<open>\<open>dataAccess.readOne("transcoding_jobs", {job_id: jobId})\<close>: \<open>(success, data)\<close>.\<close>

definition dataAccess_readOne :: "orchestrator \<Rightarrow> string \<Rightarrow> bool \<times> job_row option" where
  "dataAccess_readOne st jobId =
     (if db_up st then (True, List.find (\<lambda>r. job_id r = jobId) (db_rows st))
      else (False, None))"

text \<open>
  \<open>dataAccess.create("transcoding_jobs", jobData)\<close>: the \<open>INSERT\<close> fails on a duplicate
  primary key.
\<close>

definition dataAccess_create :: "orchestrator \<Rightarrow> job_row \<Rightarrow> orchestrator \<times> bool" where
  "dataAccess_create st jobData =
     (if db_up st \<and> List.find (\<lambda>r. job_id r = job_id jobData) (db_rows st) = None
      then (st\<lparr>db_rows := db_rows st @ [jobData]\<rparr>, True)
      else (st, False))"

definition apply_update :: "update_data \<Rightarrow> job_row \<Rightarrow> job_row" where
  "apply_update updateData r =
     r\<lparr>job_state := (case set_job_state updateData of None \<Rightarrow> job_state r | Some s \<Rightarrow> s),
       callback_data := (case set_callback_data updateData of
                           None \<Rightarrow> callback_data r | Some c \<Rightarrow> Some c),
       output_s3_key := (case set_output_s3_key updateData of
                           None \<Rightarrow> output_s3_key r | Some k \<Rightarrow> Some k)\<rparr>"

text \<open>\<open>dataAccess.update("transcoding_jobs", data, {job_id: jobId})\<close>.\<close>

definition dataAccess_update :: "orchestrator \<Rightarrow> update_data \<Rightarrow> string \<Rightarrow> orchestrator \<times> bool" where
  "dataAccess_update st updateData jobId =
     (if db_up st
      then (st\<lparr>db_rows := map (\<lambda>r. if job_id r = jobId then apply_update updateData r else r)
                               (db_rows st)\<rparr>, True)
      else (st, False))"

text \<open>The row stored under a job id, if any.\<close>

definition lookup_job :: "orchestrator \<Rightarrow> string \<Rightarrow> job_row option" where
  "lookup_job st jobId = List.find (\<lambda>r. job_id r = jobId) (db_rows st)"

section \<open>The Job Orchestrator (\<open>videoController.js\<close>)\<close>

datatype status_reply =
    StatusNotFound string
  | StatusOk string job_state "callback_body option"

text \<open>
  \<open>getJobStatus\<close>: 404 when the read fails or finds nothing; otherwise
  \<open>{jobId, state}\<close>, and \<open>callback\<close> when the state is terminal and \<open>callback_data\<close> is set.
\<close>

definition getJobStatus :: "orchestrator \<Rightarrow> string \<Rightarrow> status_reply" where
  "getJobStatus st jobId =
     (let jobResult = dataAccess_readOne st jobId
      in if \<not> fst jobResult \<or> snd jobResult = None then StatusNotFound jobId
         else
           (let job = the (snd jobResult);
                termState = [Failed, Completed]
            in StatusOk (job_id job) (job_state job)
                 (if job_state job \<in> set termState then callback_data job else None)))"

text \<open>Lines 635 to 639 of the controller: the output key.\<close>

definition outputS3KeyOf :: "string \<Rightarrow> string \<Rightarrow> string" where
  "outputS3KeyOf s3Key resolutionPreset =
     (let parsedPath = path_parse s3Key;
          nameWithoutExt = name parsedPath;
          newFilename = nameWithoutExt @ ''_'' @ resolutionPreset @ ext parsedPath
      in if dir parsedPath \<noteq> [] then dir parsedPath @ ''/'' @ newFilename else newFilename)"

record start_body =
  req_s3Key :: "string option"
  req_resolutionPreset :: "string option"

datatype start_reply =
    BadRequest string string
  | ServerError string string
  | Started string string

text \<open>
  \<open>transcodeStart\<close>. \<open>now\<close> and \<open>ts\<close> are the two readings of \<open>Date.now()\<close> and \<open>rnd\<close> is
  \<open>Math.random().toString(36).substr(2, 9)\<close>. The result of the update to
  \<open>progressing\<close> is not inspected by the source. The call of \<open>spawn\<close> is taken to
  start the worker: when it cannot, the child emits \<open>error\<close> on the next tick, while the
  handler is still awaiting the update and has no listener attached, so the event is
  unhandled, the server process ends and no reply is sent.
\<close>

definition transcodeStart ::
  "orchestrator \<Rightarrow> start_body \<Rightarrow> nat \<Rightarrow> string \<Rightarrow> nat \<Rightarrow> orchestrator \<times> start_reply" where
  "transcodeStart st body now rnd ts =
     (if req_s3Key body = None \<or> req_s3Key body = Some []
      then (st, BadRequest ''Missing s3Key'' ''Please provide S3 object key'')
      else if req_resolutionPreset body = None \<or> req_resolutionPreset body = Some []
      then (st, BadRequest ''Missing resolutionPreset''
                   ''Please provide target resolution preset'')
      else
        (let s3Key = the (req_s3Key body);
             resolutionPreset = the (req_resolutionPreset body)
         in if trim s3Key = []
            then (st, BadRequest ''Invalid s3Key'' ''S3 key must be a non-empty string'')
            else if js_get QUALITY_TO_PRESETS resolutionPreset = Undefined
            then (st, BadRequest ''Invalid resolution preset''
                        (''Available presets: '' @ join '', '' (map fst QUALITY_TO_PRESETS)))
            else
              (let jobId = ''transcode_'' @ show_nat now @ ''_'' @ rnd;
                   outputS3Key = outputS3KeyOf s3Key resolutionPreset;
                   jobData = \<lparr>job_id = jobId, job_state = Waiting, input_s3_key = s3Key,
                              output_s3_key = Some outputS3Key,
                              target_quality = resolutionPreset, submit_ts = ts,
                              callback_data = None\<rparr>;
                   createResult = dataAccess_create st jobData
               in if \<not> snd createResult
                  then (fst createResult,
                        ServerError ''Database error'' ''Failed to create job record'')
                  else
                    (let workerArgs = \<lparr>arg_jobId = jobId, arg_s3Key = s3Key,
                                        arg_outputS3Key = outputS3Key,
                                        arg_resolutionPreset = resolutionPreset\<rparr>;
                         st1 = (fst createResult)\<lparr>spawned := spawned (fst createResult) @ [workerArgs]\<rparr>;
                         st2 = fst (dataAccess_update st1
                                 \<lparr>set_job_state = Some Progressing, set_callback_data = None,
                                  set_output_s3_key = None\<rparr> jobId)
                     in (st2, Started jobId ''progressing'')))))"

text \<open>
  The listener of the worker process's \<open>error\<close> event, which \<open>transcodeStart\<close> attaches
  after the awaited update to \<open>progressing\<close>. A failed spawn emits its \<open>error\<close> before
  the listener is attached, and the controller neither kills the child nor sends it a
  message, so in the source the listener never runs. It is kept as an event that the
  job table can be shown to withstand, not as a step of the source.
\<close>

definition onWorkerError :: "orchestrator \<Rightarrow> string \<Rightarrow> orchestrator" where
  "onWorkerError st jobId =
     fst (dataAccess_update st
            \<lparr>set_job_state = Some Failed, set_callback_data = None, set_output_s3_key = None\<rparr>
            jobId)"

datatype callback_reply =
    CallbackNotFound string
  | CallbackFailed
  | CallbackOk string

text \<open>\<open>jobCallback\<close>.\<close>

definition jobCallback :: "orchestrator \<Rightarrow> string \<Rightarrow> callback_body \<Rightarrow> orchestrator \<times> callback_reply" where
  "jobCallback st jobId body =
     (let success = cb_success body;
          detail = cb_detail body;
          jobResult = dataAccess_readOne st jobId
      in if \<not> fst jobResult \<or> snd jobResult = None then (st, CallbackNotFound jobId)
         else
           (let updateData = \<lparr>set_job_state = Some (if success then Completed else Failed),
                              set_callback_data = Some body, set_output_s3_key = None\<rparr>;
                updateData' = (if success \<and> detail \<noteq> None \<and> d_outputS3Key (the detail) \<noteq> []
                               then updateData\<lparr>set_output_s3_key :=
                                                  Some (d_outputS3Key (the detail))\<rparr>
                               else updateData);
                updateResult = dataAccess_update st updateData' jobId
            in if \<not> snd updateResult then (fst updateResult, CallbackFailed)
               else (fst updateResult, CallbackOk jobId)))"

text \<open>
  The requests that reach the controller, and a run of them in sequence. \<open>EvWorkerError\<close>
  runs the \<open>error\<close> listener at an arbitrary moment: runs with it are more than the
  source can do, so a statement about all runs holds for the source, and a statement
  about what the source can reach is made on the runs without it (\<open>source_request\<close>).
\<close>

datatype request =
    ReqStart start_body nat string nat
  | ReqCallback string callback_body
  | ReqStatus string
  | EvWorkerError string

fun handle :: "orchestrator \<Rightarrow> request \<Rightarrow> orchestrator" where
  "handle st (ReqStart body now rnd ts) = fst (transcodeStart st body now rnd ts)"
| "handle st (ReqCallback jobId body) = fst (jobCallback st jobId body)"
| "handle st (ReqStatus jobId) = st"
| "handle st (EvWorkerError jobId) = onWorkerError st jobId"

definition run :: "orchestrator \<Rightarrow> request list \<Rightarrow> orchestrator" where
  "run st reqs = foldl handle st reqs"

section \<open>The Worker Execution Pipeline (\<open>video-transcode-worker.js\<close>)\<close>

text \<open>
  What a worker run meets outside itself: the objects of the Blob Store (key and size),
  the temp directory, the two readings of \<open>Date.now()\<close> for the temp file names, the
  outcome of \<open>ffprobe\<close>, of the engine and of the upload (\<open>None\<close> is success), the
  timestamp and durations it prints, and the call frames of a captured stack. Faults of
  the local file system are not modelled.
\<close>

record worker_env =
  env_blobs :: "(string \<times> nat) list"
  env_tempDir :: string
  env_now_input :: nat
  env_now_output :: nat
  env_probe_error :: "string option"
  env_engine_error :: "string option"
  env_upload_error :: "js_error option"
  env_timestamp :: string
  env_duration :: string
  env_frames :: string

text \<open>The calls a run makes to its collaborators, in order.\<close>

datatype worker_event =
    S3Get string string
  | Ffprobe string
  | Ffmpeg string string js_object
  | S3Put string string "(string \<times> string) list"
  | CallbackPost string callback_body

text \<open>
  \<open>s3Service.downloadFile\<close>: the client rejects a \<open>GetObject\<close> on a missing key with its
  \<open>NoSuchKey\<close> exception, which \<open>downloadFile\<close> logs and throws again.
\<close>

definition downloadFile :: "worker_env \<Rightarrow> string \<Rightarrow> string \<Rightarrow> js_error + nat" where
  "downloadFile env key downloadPath =
     (case map_of (env_blobs env) key of
        None \<Rightarrow> Inl (ServiceError ''NoSuchKey'' ''The specified key does not exist.'')
      | Some contentLength \<Rightarrow> Inr contentLength)"

text \<open>The \<open>catch\<close> block of \<open>processVideoFile\<close>: post the failure, then throw again.\<close>

definition reportFailure ::
  "worker_env \<Rightarrow> string \<Rightarrow> string \<Rightarrow> string \<Rightarrow> string \<Rightarrow> worker_event list \<Rightarrow> js_error
     \<Rightarrow> worker_event list \<times> (js_error + callback_body)" where
  "reportFailure env jobId s3Key outputS3Key resolutionPreset events error =
     (let errorResult =
            \<lparr>cb_success = False,
             cb_detail = Some \<lparr>d_inputS3Key = s3Key, d_outputS3Key = outputS3Key,
                               d_quality = resolutionPreset, d_jobId = jobId,
                               d_jobDuration = env_duration env @ '' ms'',
                               d_command = ''transcoding error command'',
                               d_errorStack = error_stack (env_frames env) error\<rparr>\<rparr>
      in (events @ [CallbackPost jobId errorResult], Inl error))"

text \<open>
  \<open>processVideoFile\<close>: the events of the run and either the thrown error or the result
  it returns.
\<close>

definition processVideoFile ::
  "worker_env \<Rightarrow> string \<Rightarrow> string \<Rightarrow> string \<Rightarrow> string
     \<Rightarrow> worker_event list \<times> (js_error + callback_body)" where
  "processVideoFile env jobId s3Key outputS3Key resolutionPreset =
     (let originalFilename = path_basename s3Key;
          tempInputPath = env_tempDir env @ ''/input_'' @ show_nat (env_now_input env)
                          @ ''_'' @ originalFilename;
          tempOutputPath = env_tempDir env @ ''/output_'' @ show_nat (env_now_output env)
                           @ ''_'' @ originalFilename;
          failWith = reportFailure env jobId s3Key outputS3Key resolutionPreset;
          ev1 = [S3Get s3Key tempInputPath]
      in case downloadFile env s3Key tempInputPath of
           Inl e \<Rightarrow> failWith ev1 e
         | Inr contentLength \<Rightarrow>
      (case createTranscodingConfig
              \<lparr>opt_input_path = Some tempInputPath, opt_quality = Some resolutionPreset,
               opt_videoCodec = None, opt_audioCodec = None, opt_format = None,
               opt_filters = [], opt_advanced = []\<rparr> of
         Inl e \<Rightarrow> failWith ev1 e
       | Inr transcodingConfig \<Rightarrow>
      (let ev2 = ev1 @ [Ffprobe (cfg_input_path transcodingConfig)]
       in case env_probe_error env of
            Some m \<Rightarrow> failWith ev2 (Error (''ffprobe failed: '' @ m))
          | None \<Rightarrow>
      (let ev3 = ev2 @ [Ffmpeg (cfg_input_path transcodingConfig) tempOutputPath
                          (cfg_output transcodingConfig @ [(''path'', JStr tempOutputPath)])]
       in case env_engine_error env of
            Some m \<Rightarrow> failWith ev3 (Error (''Transcoding failed: FFmpeg failed: '' @ m))
          | None \<Rightarrow>
      (let newMetadata = [(''original-s3-key'', s3Key),
                          (''resolution-preset'', resolutionPreset),
                          (''processed-timestamp'', env_timestamp env),
                          (''worker'', ''video-transcode-worker'')];
           ev4 = ev3 @ [S3Put tempOutputPath outputS3Key newMetadata]
       in case env_upload_error env of
            Some e \<Rightarrow> failWith ev4 e
          | None \<Rightarrow>
      (let result =
             \<lparr>cb_success = True,
              cb_detail = Some \<lparr>d_inputS3Key = s3Key, d_outputS3Key = outputS3Key,
                                d_quality = resolutionPreset, d_jobId = jobId,
                                d_jobDuration = env_duration env @ '' ms'',
                                d_command = ''transcoding command'',
                                d_errorStack = []\<rparr>\<rparr>
       in (ev4 @ [CallbackPost jobId result], Inr result)))))))"

text \<open>
  \<open>main\<close>: the events of the run and the exit code. A failed validation exits before
  \<open>processVideoFile\<close> and posts nothing.
\<close>

definition worker_main :: "worker_env \<Rightarrow> string list \<Rightarrow> worker_event list \<times> nat" where
  "worker_main env args =
     (if length args < 4 then ([], 1)
      else
        (let jobId = args ! 0; s3Key = args ! 1; outputS3Key = args ! 2;
             resolutionPreset = args ! 3
         in if s3Key = [] \<or> trim s3Key = [] then ([], 1)
            else if js_get QUALITY_TO_PRESETS resolutionPreset = Undefined then ([], 1)
            else
              (case processVideoFile env jobId s3Key outputS3Key resolutionPreset of
                 (events, Inl e) \<Rightarrow> (events, 1)
               | (events, Inr r) \<Rightarrow> (events, 0))))"

section \<open>Predicates used in the statements\<close>


text \<open>
  A request rewrites the locator \<open>out\<close> of a job when it is a successful callback for
  that job whose detail carries a non-empty \<open>outputS3Key\<close> other than \<open>out\<close>.
\<close>

definition rewrites_locator :: "string \<Rightarrow> string \<Rightarrow> request \<Rightarrow> bool" where
  "rewrites_locator jobId out req =
     (case req of
        ReqCallback j body \<Rightarrow>
          j = jobId \<and> cb_success body \<and> cb_detail body \<noteq> None \<and>
          d_outputS3Key (the (cb_detail body)) \<noteq> [] \<and>
          d_outputS3Key (the (cb_detail body)) \<noteq> out
      | _ \<Rightarrow> False)"

text \<open>
  A merged value fails the positivity check of \<open>validateOutput\<close>: it is set and truthy,
  and is not a number above zero.
\<close>

definition not_positive :: "jsval option \<Rightarrow> bool" where
  "not_positive v = (truthy v \<and> (\<not> is_number v \<or> number_of v \<le> 0))"

text \<open>The quality name that \<open>createTranscodingConfig\<close> looks up, and the codec names.\<close>

definition quality_name :: "transcoding_options \<Rightarrow> string" where
  "quality_name options = (case opt_quality options of None \<Rightarrow> ''720p30av1'' | Some q \<Rightarrow> q)"

definition videoCodec_name :: "transcoding_options \<Rightarrow> string" where
  "videoCodec_name options = (case opt_videoCodec options of None \<Rightarrow> ''av1'' | Some c \<Rightarrow> c)"

definition audioCodec_name :: "transcoding_options \<Rightarrow> string" where
  "audioCodec_name options = (case opt_audioCodec options of None \<Rightarrow> ''aac'' | Some c \<Rightarrow> c)"

text \<open>
  A request whose preset name resolves to nothing in the preset table (not even to an
  inherited member), with a usable input path, both overrides non-empty and codec names
  that are keys of the codec tables: the resolver gets past every read of
  \<open>qualityConfig\<close>. \<open>c\<close> and \<open>a\<close> are the two codec entries.
\<close>

definition unknown_preset_request :: "transcoding_options \<Rightarrow> video_codec \<Rightarrow> audio_codec \<Rightarrow> bool" where
  "unknown_preset_request options c a =
     (validateInput (opt_input_path options) = Inr () \<and>
      js_get QUALITY_TO_PRESETS (quality_name options) = Undefined \<and>
      opt_filters options \<noteq> [] \<and> opt_advanced options \<noteq> [] \<and>
      js_get VIDEO_CODECS (videoCodec_name options) = Own c \<and>
      js_get AUDIO_CODECS (audioCodec_name options) = Own a)"

text \<open>An advanced override that sets no width, height, framerate or additional arguments.\<close>

definition plain_override :: "js_object \<Rightarrow> bool" where
  "plain_override advanced =
     (js_prop advanced ''width'' = None \<and> js_prop advanced ''height'' = None \<and>
      js_prop advanced ''framerate'' = None \<and> js_prop advanced ''additionalArgs'' = None)"

text \<open>
  The object literal of the resolver when the preset is \<open>undefined\<close>: every
  \<open>qualityConfig?.x || default.x\<close> is the default of the codec.
\<close>

definition codec_defaults_output :: "video_codec \<Rightarrow> audio_codec \<Rightarrow> string \<Rightarrow> js_object" where
  "codec_defaults_output c a format =
     [(''videoCodec'', JStr (vc_name c)), (''audioCodec'', JStr (ac_name a)),
      (''format'', JStr format), (''crf'', JNum (vc_default_crf c)),
      (''preset'', JStr (vc_default_preset c)), (''width'', JNum (vc_default_width c)),
      (''height'', JNum (vc_default_height c)), (''audioBitrate'', JStr (ac_default_bitrate a))]"

text \<open>
  The requests that the source can receive: submissions, callbacks and status reads.
\<close>

definition source_request :: "request \<Rightarrow> bool" where
  "source_request req = (case req of EvWorkerError j \<Rightarrow> False | _ \<Rightarrow> True)"

text \<open>
  Every row in state \<open>Completed\<close> holds a payload with \<open>success\<close> true, and every row in
  state \<open>Failed\<close> a payload with \<open>success\<close> false.
\<close>

definition payload_kept :: "orchestrator \<Rightarrow> bool" where
  "payload_kept st =
     (\<forall>r \<in> set (db_rows st).
        (job_state r = Completed \<longrightarrow> (\<exists>b. callback_data r = Some b \<and> cb_success b)) \<and>
        (job_state r = Failed \<longrightarrow> (\<exists>b. callback_data r = Some b \<and> \<not> cb_success b)))"

text \<open>
  The filter chain in the words of the specification: the entries of the filter object
  taken in the order scale, framerate change, deinterlace, denoise, crop, pad, custom
  (\<open>rank\<close>), whatever their insertion order, each giving the filter text that the source
  pushes for it. \<open>filterChain\<close> above is the sequence of \<open>if\<close> statements of the source;
  the two are compared below.
\<close>

fun rank :: "filter_key \<Rightarrow> nat" where
  "rank KScale = 0"
| "rank KFps = 1"
| "rank KDeinterlace = 2"
| "rank KDenoise = 3"
| "rank KCrop = 4"
| "rank KPad = 5"
| "rank KCustom = 6"

fun filter_text :: "filter_entry \<Rightarrow> string list" where
  "filter_text (Scale w h opts) = [generateScaleFilter w h opts]"
| "filter_text (Fps n) = (if n \<noteq> 0 then [''fps='' @ show_int n] else [])"
| "filter_text (Deinterlace b) = (if b then [''yadif''] else [])"
| "filter_text (Denoise strength) =
     [''hqdn3d='' @ (if truthy strength then js_to_string (the strength) else ''default'')]"
| "filter_text (Crop w h x y) =
     [''crop='' @ show_int w @ '':'' @ show_int h @ '':''
      @ show_int (case x of None \<Rightarrow> 0 | Some v \<Rightarrow> v) @ '':''
      @ show_int (case y of None \<Rightarrow> 0 | Some v \<Rightarrow> v)]"
| "filter_text (Pad w h x y color) =
     [''pad='' @ show_int w @ '':'' @ show_int h @ '':''
      @ show_int (case x of None \<Rightarrow> 0 | Some v \<Rightarrow> v) @ '':''
      @ show_int (case y of None \<Rightarrow> 0 | Some v \<Rightarrow> v) @ '':''
      @ (case color of None \<Rightarrow> ''black'' | Some c \<Rightarrow> c)]"
| "filter_text (Custom xs) = xs"

definition chain_in_fixed_order :: "filter_entry list \<Rightarrow> string list" where
  "chain_in_fixed_order filters =
     concat (map filter_text (sort_key (rank \<circ> key_of) filters))"

text \<open>
  The entries that the \<open>if\<close> statements of \<open>generateVideoFilters\<close> find, in the sequence
  of the statements (used in the comparison).
\<close>

definition entry_list :: "filter_entry option \<Rightarrow> filter_entry list" where
  "entry_list e = (case e of None \<Rightarrow> [] | Some x \<Rightarrow> [x])"

definition entries_by_key :: "filter_entry list \<Rightarrow> filter_entry list" where
  "entries_by_key filters =
     entry_list (filter_prop filters KScale) @ entry_list (filter_prop filters KFps)
     @ entry_list (filter_prop filters KDeinterlace) @ entry_list (filter_prop filters KDenoise)
     @ entry_list (filter_prop filters KCrop) @ entry_list (filter_prop filters KPad)
     @ entry_list (filter_prop filters KCustom)"

section \<open>Example inputs\<close>

text \<open>
  The submission of the specification's end-to-end example, an empty job table, and the
  table after that submission was accepted at time 5 with random suffix \<open>ab\<close>.
\<close>

definition example_body :: start_body where
  "example_body =
     \<lparr>req_s3Key = Some ''uploads/video.mp4'', req_resolutionPreset = Some ''720p30av1''\<rparr>"

definition empty_store :: orchestrator where
  "empty_store = \<lparr>db_up = True, db_rows = [], spawned = []\<rparr>"

definition example_store :: orchestrator where
  "example_store = fst (transcodeStart empty_store example_body 5 ''ab'' 6)"

definition example_detail :: job_detail where
  "example_detail =
     \<lparr>d_inputS3Key = ''uploads/video.mp4'', d_outputS3Key = ''uploads/video_720p30av1.mp4'',
      d_quality = ''720p30av1'', d_jobId = ''transcode_5_ab'', d_jobDuration = ''15432.50 ms'',
      d_command = ''transcoding command'', d_errorStack = []\<rparr>"

definition success_body :: callback_body where
  "success_body = \<lparr>cb_success = True, cb_detail = Some example_detail\<rparr>"

definition failure_body :: callback_body where
  "failure_body =
     \<lparr>cb_success = False,
      cb_detail = Some (example_detail\<lparr>d_command := ''transcoding error command'',
                                       d_errorStack := ''Error: Transcoding failed''\<rparr>)\<rparr>"

text \<open>A successful callback for the example job that names another output key.\<close>

definition moved_body :: callback_body where
  "moved_body =
     \<lparr>cb_success = True,
      cb_detail = Some (example_detail\<lparr>d_outputS3Key := ''elsewhere/other.mp4''\<rparr>)\<rparr>"

text \<open>
  Resolver inputs: no overrides; the overrides of the repository's transcoder test; an
  unknown preset name with both overrides; and the entry \<open>720p30av1\<close> of the preset table.
\<close>

definition plain_options :: transcoding_options where
  "plain_options =
     \<lparr>opt_input_path = Some ''/app/temp/input_7_video.mp4'', opt_quality = Some ''720p30av1'',
      opt_videoCodec = Some ''av1'', opt_audioCodec = None, opt_format = None,
      opt_filters = [], opt_advanced = []\<rparr>"

definition test_options :: transcoding_options where
  "test_options =
     plain_options\<lparr>opt_filters := [Scale 854 480 None, Fps 24],
                    opt_advanced := [(''crf'', JNum 50), (''preset'', JStr ''11''),
                                     (''additionalArgs'', JArr [''-vsync'', ''0''])]\<rparr>"

definition mystery_options :: transcoding_options where
  "mystery_options =
     plain_options\<lparr>opt_quality := Some ''4k-mystery'', opt_filters := [Fps 30],
                    opt_advanced := [(''crf'', JNum 30)]\<rparr>"

text \<open>
  An advanced override with a \<open>null\<close> quality and a zero width; a filter override with a
  negative frame rate; the unknown preset name with an advanced override that sets the
  speed only.
\<close>

definition falsy_options :: transcoding_options where
  "falsy_options =
     plain_options\<lparr>opt_advanced := [(''crf'', JNull), (''width'', JNum 0)]\<rparr>"

definition negative_fps_options :: transcoding_options where
  "negative_fps_options = plain_options\<lparr>opt_filters := [Fps (- 5)]\<rparr>"

definition speed_only_options :: transcoding_options where
  "speed_only_options = mystery_options\<lparr>opt_advanced := [(''preset'', JStr ''8'')]\<rparr>"

definition preset_720p30av1 :: quality_preset where
  "preset_720p30av1 =
     \<lparr>qp_width = 1280, qp_height = 720, qp_crf = 49, qp_preset = ''12'',
      qp_filters = [Fps 30],
      qp_advanced =
        [(''additionalArgs'',
          JArr [''-svtav1-params'',
                ''hierarchical-levels=2:keyint=90:lookahead=11:lp=10:scm=0:enable-tf=0''])]\<rparr>"

text \<open>What the resolver returns on \<open>plain_options\<close>.\<close>

definition plain_config :: transcoding_config where
  "plain_config =
     \<lparr>cfg_input_path = ''/app/temp/input_7_video.mp4'',
      cfg_output =
        [(''videoCodec'', JStr ''libsvtav1''), (''audioCodec'', JStr ''aac''),
         (''format'', JStr ''mp4''), (''crf'', JNum 49), (''preset'', JStr ''12''),
         (''width'', JNum 1280), (''height'', JNum 720), (''audioBitrate'', JStr ''96k''),
         (''additionalArgs'',
          JArr [''-svtav1-params'',
                ''hierarchical-levels=2:keyint=90:lookahead=11:lp=10:scm=0:enable-tf=0'']),
         (''additionalArgs'',
          JArr [''-svtav1-params'',
                ''hierarchical-levels=2:keyint=90:lookahead=11:lp=10:scm=0:enable-tf=0'',
                ''-vf'', ''fps=30''])]\<rparr>"

text \<open>A worker environment whose Blob Store holds the example input, and where every
  collaborator succeeds.\<close>

definition example_env :: worker_env where
  "example_env =
     \<lparr>env_blobs = [(''uploads/video.mp4'', 1000)], env_tempDir = ''/app/temp'',
      env_now_input = 7, env_now_output = 8, env_probe_error = None,
      env_engine_error = None, env_upload_error = None,
      env_timestamp = ''2025-08-08T14:08:46.489Z'', env_duration = ''15432.50'',
      env_frames = []\<rparr>"

section \<open>Facts about the Job Store\<close>

text \<open>Reading a job after an insert and after an update.\<close>


lemma find_append_single:
  "List.find P (xs @ [x]) =
     (case List.find P xs of Some y \<Rightarrow> Some y | None \<Rightarrow> if P x then Some x else None)"
  by (induction xs) auto

lemma job_id_apply_update [simp]: "job_id (apply_update u r) = job_id r"
  by (simp add: apply_update_def)

lemma find_map_update:
  "List.find (\<lambda>r. job_id r = k) (map (\<lambda>r. if job_id r = j then apply_update u r else r) rows) =
     (if k = j then map_option (apply_update u) (List.find (\<lambda>r. job_id r = j) rows)
      else List.find (\<lambda>r. job_id r = k) rows)"
  by (induction rows) auto

lemma lookup_job_update:
  "lookup_job (fst (dataAccess_update st u j)) k =
     (if db_up st \<and> k = j then map_option (apply_update u) (lookup_job st j)
      else lookup_job st k)"
  by (simp add: lookup_job_def dataAccess_update_def find_map_update)

lemma dataAccess_update_misc [simp]:
  "snd (dataAccess_update st u j) = db_up st"
  "db_up (fst (dataAccess_update st u j)) = db_up st"
  "spawned (fst (dataAccess_update st u j)) = spawned st"
  by (simp_all add: dataAccess_update_def)

lemma dataAccess_readOne_eq:
  "dataAccess_readOne st jobId = (db_up st, if db_up st then lookup_job st jobId else None)"
  by (simp add: dataAccess_readOne_def lookup_job_def)

lemma lookup_job_id: "lookup_job st jobId = Some r \<Longrightarrow> job_id r = jobId"
  by (auto simp: lookup_job_def find_Some_iff)


lemma lookup_job_insert:
  "lookup_job (st\<lparr>db_rows := db_rows st @ [row]\<rparr>) k =
     (case lookup_job st k of Some y \<Rightarrow> Some y | None \<Rightarrow> if job_id row = k then Some row else None)"
  by (simp add: lookup_job_def find_append_single)

lemma lookup_job_spawned [simp]: "lookup_job (st\<lparr>spawned := x\<rparr>) k = lookup_job st k"
  by (simp add: lookup_job_def)

text \<open>\<open>jobCallback\<close> on an unknown and on a known job id.\<close>

lemma jobCallback_unknown:
  "lookup_job st jobId = None \<Longrightarrow> jobCallback st jobId body = (st, CallbackNotFound jobId)"
  by (simp add: jobCallback_def dataAccess_readOne_eq Let_def)

lemma jobCallback_known:
  assumes "db_up st" "lookup_job st jobId = Some r"
  shows "snd (jobCallback st jobId body) = CallbackOk jobId"
    and "lookup_job (fst (jobCallback st jobId body)) jobId =
           Some (r\<lparr>job_state := (if cb_success body then Completed else Failed),
                   callback_data := Some body,
                   output_s3_key :=
                     (if cb_success body \<and> cb_detail body \<noteq> None \<and> d_outputS3Key (the (cb_detail body)) \<noteq> []
                      then Some (d_outputS3Key (the (cb_detail body))) else output_s3_key r)\<rparr>)"
    and "db_up (fst (jobCallback st jobId body))"
    and "k \<noteq> jobId \<Longrightarrow> lookup_job (fst (jobCallback st jobId body)) k = lookup_job st k"
  using assms
  by (simp_all add: jobCallback_def dataAccess_readOne_eq Let_def lookup_job_update apply_update_def)

section \<open>The callback handler\<close>

text \<open>
  Claim C1. For every known job id (with the database answering), \<open>jobCallback\<close>
  acknowledges the callback and persists the terminal state matching \<open>success\<close>
  (\<open>Completed\<close> when it is true, \<open>Failed\<close> otherwise) together with the payload, whatever
  the state of the job was; a second callback on the now terminal job is acknowledged as
  well and overwrites state and payload (last write wins). For every unknown job id the
  reply is not-found and the store is unchanged.
\<close>

theorem handleCallback_terminal_state:
  "(lookup_job st jobId = None \<longrightarrow> jobCallback st jobId body = (st, CallbackNotFound jobId)) \<and>
   (db_up st \<longrightarrow> lookup_job st jobId \<noteq> None \<longrightarrow>
      snd (jobCallback st jobId body) = CallbackOk jobId \<and>
      map_option job_state (lookup_job (fst (jobCallback st jobId body)) jobId)
        = Some (if cb_success body then Completed else Failed) \<and>
      map_option callback_data (lookup_job (fst (jobCallback st jobId body)) jobId)
        = Some (Some body) \<and>
      snd (jobCallback (fst (jobCallback st jobId body)) jobId body') = CallbackOk jobId \<and>
      map_option job_state
         (lookup_job (fst (jobCallback (fst (jobCallback st jobId body)) jobId body')) jobId)
        = Some (if cb_success body' then Completed else Failed) \<and>
      map_option callback_data
         (lookup_job (fst (jobCallback (fst (jobCallback st jobId body)) jobId body')) jobId)
        = Some (Some body'))"
proof (intro conjI impI)
  assume "lookup_job st jobId = None"
  then show "jobCallback st jobId body = (st, CallbackNotFound jobId)"
    by (rule jobCallback_unknown)
next
  assume up: "db_up st" and known: "lookup_job st jobId \<noteq> None"
  then obtain r where r: "lookup_job st jobId = Some r" by auto
  let ?st1 = "fst (jobCallback st jobId body)"
  note first = jobCallback_known [OF up r, where body = body]
  from first(2) obtain r1 where r1: "lookup_job ?st1 jobId = Some r1"
    and s1: "job_state r1 = (if cb_success body then Completed else Failed)"
    and c1: "callback_data r1 = Some body"
    by simp
  note second = jobCallback_known [OF first(3) r1, where body = body']
  show "snd (jobCallback st jobId body) = CallbackOk jobId" by (rule first(1))
  show "map_option job_state (lookup_job ?st1 jobId) = Some (if cb_success body then Completed else Failed)"
    using r1 s1 by simp
  show "map_option callback_data (lookup_job ?st1 jobId) = Some (Some body)"
    using r1 c1 by simp
  show "snd (jobCallback ?st1 jobId body') = CallbackOk jobId" by (rule second(1))
  show "map_option job_state (lookup_job (fst (jobCallback ?st1 jobId body')) jobId)
          = Some (if cb_success body' then Completed else Failed)"
    using second(2) by simp
  show "map_option callback_data (lookup_job (fst (jobCallback ?st1 jobId body')) jobId)
          = Some (Some body')"
    using second(2) by simp
qed

theorem handleCallback_terminal_state_witness:
  "jobCallback empty_store ''transcode_5_ab'' success_body
     = (empty_store, CallbackNotFound ''transcode_5_ab'') \<and>
   snd (jobCallback example_store ''transcode_5_ab'' success_body) = CallbackOk ''transcode_5_ab'' \<and>
   map_option job_state
     (lookup_job (fst (jobCallback example_store ''transcode_5_ab'' success_body)) ''transcode_5_ab'')
     = Some Completed \<and>
   snd (jobCallback (fst (jobCallback example_store ''transcode_5_ab'' success_body))
          ''transcode_5_ab'' failure_body) = CallbackOk ''transcode_5_ab'' \<and>
   map_option job_state
     (lookup_job (fst (jobCallback (fst (jobCallback example_store ''transcode_5_ab'' success_body))
          ''transcode_5_ab'' failure_body)) ''transcode_5_ab'')
     = Some Failed"
proof -
  have none: "lookup_job empty_store ''transcode_5_ab'' = None" by code_simp
  have up: "db_up example_store" by code_simp
  have known: "lookup_job example_store ''transcode_5_ab'' \<noteq> None" by code_simp
  have s: "cb_success success_body" "\<not> cb_success failure_body" by code_simp+
  show ?thesis
    using handleCallback_terminal_state [of empty_store "''transcode_5_ab''" success_body failure_body]
      handleCallback_terminal_state [of example_store "''transcode_5_ab''" success_body failure_body]
      none up known s
    by simp
qed

section \<open>Submission and status\<close>

text \<open>What an accepted submission did: the id it generated, the row it left in state
  \<open>Progressing\<close>, the worker it spawned; every other job is as it was.\<close>

lemma transcodeStart_Started:
  assumes "transcodeStart st body now rnd ts = (st', Started jobId status)"
  shows "jobId = ''transcode_'' @ show_nat now @ ''_'' @ rnd"
    and "status = ''progressing''"
    and "db_up st" and "db_up st'"
    and "lookup_job st jobId = None"
    and "lookup_job st' jobId =
           Some \<lparr>job_id = jobId, job_state = Progressing,
                 input_s3_key = the (req_s3Key body),
                 output_s3_key = Some (outputS3KeyOf (the (req_s3Key body))
                                         (the (req_resolutionPreset body))),
                 target_quality = the (req_resolutionPreset body), submit_ts = ts,
                 callback_data = None\<rparr>"
    and "k \<noteq> jobId \<Longrightarrow> lookup_job st' k = lookup_job st k"
    and "spawned st' = spawned st @
           [\<lparr>arg_jobId = jobId, arg_s3Key = the (req_s3Key body),
             arg_outputS3Key = outputS3KeyOf (the (req_s3Key body))
                                 (the (req_resolutionPreset body)),
             arg_resolutionPreset = the (req_resolutionPreset body)\<rparr>]"
    and "trim (the (req_s3Key body)) \<noteq> []"
    and "js_get QUALITY_TO_PRESETS (the (req_resolutionPreset body)) \<noteq> Undefined"
  using assms
  by (auto simp: transcodeStart_def Let_def dataAccess_create_def dataAccess_update_def
      lookup_job_def find_map_update find_append_single apply_update_def
      split: if_splits option.splits)


text \<open>A submission that fails one of the four checks gets a 400 reply; the store and
  the spawned workers are as they were.\<close>

lemma transcodeStart_rejects:
  assumes "req_s3Key body = None \<or> req_s3Key body = Some [] \<or> trim (the (req_s3Key body)) = []
     \<or> req_resolutionPreset body = None \<or> req_resolutionPreset body = Some []
     \<or> js_get QUALITY_TO_PRESETS (the (req_resolutionPreset body)) = Undefined"
  shows "\<exists>e m. transcodeStart st body now rnd ts = (st, BadRequest e m)"
  using assms by (auto simp: transcodeStart_def Let_def)

text \<open>\<open>getJobStatus\<close> in terms of the stored row.\<close>

lemma getJobStatus_eq:
  "getJobStatus st jobId =
     (if db_up st then
        (case lookup_job st jobId of
           None \<Rightarrow> StatusNotFound jobId
         | Some job \<Rightarrow> StatusOk jobId (job_state job)
             (if job_state job = Completed \<or> job_state job = Failed then callback_data job else None))
      else StatusNotFound jobId)"
  by (auto simp: getJobStatus_def dataAccess_readOne_eq Let_def dest: lookup_job_id split: option.splits)








lemma example_start:
  "transcodeStart empty_store example_body 5 ''ab'' 6 =
     (example_store, Started ''transcode_5_ab'' ''progressing'')"
  by code_simp


lemma example_output_key:
  "outputS3KeyOf ''uploads/video.mp4'' ''720p30av1'' = ''uploads/video_720p30av1.mp4''"
  by code_simp

text \<open>
  Claim C3. The output locator that an accepted submission persists and hands to the
  worker is \<open>outputS3KeyOf\<close> of the input locator and the preset name: it does not
  depend on the store, the clock or the random suffix, so two accepted submissions of the
  same pair get the same locator. For \<open>uploads/video.mp4\<close> and \<open>720p30av1\<close> it is
  \<open>uploads/video_720p30av1.mp4\<close>.
\<close>

theorem output_locator_deterministic:
  assumes "transcodeStart st body now rnd ts = (st', Started jobId status)"
    and "transcodeStart st2 body now2 rnd2 ts2 = (st2', Started jobId2 status2)"
  shows "map_option output_s3_key (lookup_job st' jobId)
           = Some (Some (outputS3KeyOf (the (req_s3Key body)) (the (req_resolutionPreset body)))) \<and>
         map_option output_s3_key (lookup_job st2' jobId2)
           = map_option output_s3_key (lookup_job st' jobId) \<and>
         arg_outputS3Key (last (spawned st'))
           = outputS3KeyOf (the (req_s3Key body)) (the (req_resolutionPreset body)) \<and>
         outputS3KeyOf ''uploads/video.mp4'' ''720p30av1'' = ''uploads/video_720p30av1.mp4''"
  using transcodeStart_Started(6,8) [OF assms(1)] transcodeStart_Started(6) [OF assms(2)]
    example_output_key
  by simp

lemma example_start_again:
  "transcodeStart example_store example_body 77 ''zz'' 78 =
     (fst (transcodeStart example_store example_body 77 ''zz'' 78),
      Started ''transcode_77_zz'' ''progressing'')"
  by code_simp

theorem output_locator_deterministic_witness:
  "map_option output_s3_key (lookup_job example_store ''transcode_5_ab'')
     = Some (Some ''uploads/video_720p30av1.mp4'') \<and>
   map_option output_s3_key
     (lookup_job (fst (transcodeStart example_store example_body 77 ''zz'' 78)) ''transcode_77_zz'')
     = Some (Some ''uploads/video_720p30av1.mp4'') \<and>
   arg_outputS3Key (last (spawned example_store)) = ''uploads/video_720p30av1.mp4''"
proof -
  have b: "the (req_s3Key example_body) = ''uploads/video.mp4''"
    "the (req_resolutionPreset example_body) = ''720p30av1''"
    by (simp_all add: example_body_def)
  show ?thesis
    using output_locator_deterministic [OF example_start example_start_again] b
    by (simp add: example_output_key)
qed

text \<open>
  Every terminal state that a request of the source writes comes with its payload: a
  submission writes \<open>Waiting\<close> and \<open>Progressing\<close> only, and a callback writes the state
  together with the body it received.
\<close>

lemma payload_kept_empty: "db_rows st = [] \<Longrightarrow> payload_kept st"
  by (simp add: payload_kept_def)

lemma payload_kept_handle:
  assumes "payload_kept st" and "source_request req"
  shows "payload_kept (handle st req)"
proof (cases req)
  case (ReqStart body now rnd ts)
  show ?thesis
    using assms(1) unfolding ReqStart
    by (auto simp: transcodeStart_def Let_def dataAccess_create_def dataAccess_update_def
        payload_kept_def apply_update_def split: if_splits)
next
  case (ReqCallback j body)
  show ?thesis
    using assms(1) unfolding ReqCallback
    by (auto simp: jobCallback_def Let_def dataAccess_readOne_def dataAccess_update_def
        payload_kept_def apply_update_def split: if_splits)
next
  case (ReqStatus j)
  then show ?thesis using assms(1) by simp
next
  case (EvWorkerError j)
  then show ?thesis using assms(2) by (simp add: source_request_def)
qed

lemma payload_kept_run:
  "payload_kept st \<Longrightarrow> \<forall>req \<in> set reqs. source_request req \<Longrightarrow> payload_kept (run st reqs)"
  unfolding run_def by (induction reqs arbitrary: st) (auto intro: payload_kept_handle)

lemma payload_kept_lookup:
  assumes "payload_kept st" and "lookup_job st jobId = Some job"
  shows "(job_state job = Completed \<longrightarrow> (\<exists>b. callback_data job = Some b \<and> cb_success b)) \<and>
         (job_state job = Failed \<longrightarrow> (\<exists>b. callback_data job = Some b \<and> \<not> cb_success b))"
proof -
  have "job \<in> set (db_rows st)"
    using assms(2) by (auto simp: lookup_job_def find_Some_iff)
  then show ?thesis using assms(1) by (simp add: payload_kept_def)
qed

text \<open>
  Claim C4. In every job table that submissions, callbacks and status reads build from an
  empty one, \<open>getJobStatus\<close> replies not-found when no job has the id; when the job
  exists (and the read of its row succeeds) the reply is the id and the state alone while
  the job is waiting or progressing, and the id, the state and the stored callback
  payload when the state is terminal; the payload is then present, and its \<open>success\<close> is
  true exactly when the state is completed.
\<close>

theorem status_reply_with_payload:
  assumes "db_rows st0 = []" and "\<forall>req \<in> set reqs. source_request req"
  shows "(lookup_job (run st0 reqs) jobId = None \<longrightarrow>
            getJobStatus (run st0 reqs) jobId = StatusNotFound jobId) \<and>
         (db_up (run st0 reqs) \<longrightarrow> lookup_job (run st0 reqs) jobId = Some job \<longrightarrow>
            (job_state job = Waiting \<or> job_state job = Progressing \<longrightarrow>
               getJobStatus (run st0 reqs) jobId = StatusOk jobId (job_state job) None) \<and>
            (job_state job = Completed \<or> job_state job = Failed \<longrightarrow>
               (\<exists>body. callback_data job = Some body \<and>
                       cb_success body = (job_state job = Completed) \<and>
                       getJobStatus (run st0 reqs) jobId =
                         StatusOk jobId (job_state job) (Some body))))"
proof (intro conjI impI)
  assume "lookup_job (run st0 reqs) jobId = None"
  then show "getJobStatus (run st0 reqs) jobId = StatusNotFound jobId"
    by (simp add: getJobStatus_eq)
next
  assume "db_up (run st0 reqs)" "lookup_job (run st0 reqs) jobId = Some job"
    "job_state job = Waiting \<or> job_state job = Progressing"
  then show "getJobStatus (run st0 reqs) jobId = StatusOk jobId (job_state job) None"
    by (auto simp: getJobStatus_eq)
next
  assume up: "db_up (run st0 reqs)" and job: "lookup_job (run st0 reqs) jobId = Some job"
    and terminal: "job_state job = Completed \<or> job_state job = Failed"
  have "payload_kept (run st0 reqs)"
    using payload_kept_empty [OF assms(1)] assms(2) by (rule payload_kept_run)
  from payload_kept_lookup [OF this job] terminal
  obtain body where "callback_data job = Some body" "cb_success body = (job_state job = Completed)"
    by auto
  then show "\<exists>body. callback_data job = Some body \<and>
                       cb_success body = (job_state job = Completed) \<and>
                       getJobStatus (run st0 reqs) jobId =
                         StatusOk jobId (job_state job) (Some body)"
    using up job terminal by (auto simp: getJobStatus_eq)
qed

theorem status_reply_with_payload_witness:
  "getJobStatus (run empty_store
       [ReqStart example_body 5 ''ab'' 6, ReqStatus ''transcode_5_ab'',
        ReqCallback ''transcode_5_ab'' failure_body]) ''transcode_9_zz''
     = StatusNotFound ''transcode_9_zz'' \<and>
   getJobStatus (run empty_store [ReqStart example_body 5 ''ab'' 6]) ''transcode_5_ab''
     = StatusOk ''transcode_5_ab'' Progressing None \<and>
   (\<exists>body. \<not> cb_success body \<and>
      getJobStatus (run empty_store
       [ReqStart example_body 5 ''ab'' 6, ReqStatus ''transcode_5_ab'',
        ReqCallback ''transcode_5_ab'' failure_body]) ''transcode_5_ab''
     = StatusOk ''transcode_5_ab'' Failed (Some body))"
proof -
  let ?reqs = "[ReqStart example_body 5 ''ab'' 6, ReqStatus ''transcode_5_ab'',
        ReqCallback ''transcode_5_ab'' failure_body]"
  let ?row = "\<lparr>job_id = ''transcode_5_ab'', job_state = Failed,
      input_s3_key = ''uploads/video.mp4'',
      output_s3_key = Some ''uploads/video_720p30av1.mp4'', target_quality = ''720p30av1'',
      submit_ts = 6, callback_data = Some failure_body\<rparr>"
  let ?row1 = "\<lparr>job_id = ''transcode_5_ab'', job_state = Progressing,
      input_s3_key = ''uploads/video.mp4'',
      output_s3_key = Some ''uploads/video_720p30av1.mp4'', target_quality = ''720p30av1'',
      submit_ts = 6, callback_data = None\<rparr>"
  have empty: "db_rows empty_store = []" by (simp add: empty_store_def)
  have src: "\<forall>req \<in> set ?reqs. source_request req"
    "\<forall>req \<in> set [ReqStart example_body 5 ''ab'' 6]. source_request req"
    by (simp_all add: source_request_def)
  have none: "lookup_job (run empty_store ?reqs) ''transcode_9_zz'' = None" by code_simp
  have up: "db_up (run empty_store ?reqs)" "db_up (run empty_store [ReqStart example_body 5 ''ab'' 6])"
    by code_simp+
  have job: "lookup_job (run empty_store ?reqs) ''transcode_5_ab'' = Some ?row" by code_simp
  have job1: "lookup_job (run empty_store [ReqStart example_body 5 ''ab'' 6]) ''transcode_5_ab''
                = Some ?row1" by code_simp
  have w1: "getJobStatus (run empty_store ?reqs) ''transcode_9_zz'' = StatusNotFound ''transcode_9_zz''"
    using status_reply_with_payload [OF empty src(1), where jobId = "''transcode_9_zz''"] none
    by blast
  have w2: "getJobStatus (run empty_store [ReqStart example_body 5 ''ab'' 6]) ''transcode_5_ab''
     = StatusOk ''transcode_5_ab'' Progressing None"
    using status_reply_with_payload [OF empty src(2), where jobId = "''transcode_5_ab''"
        and job = ?row1] up(2) job1
    by simp
  have w3: "\<exists>body. \<not> cb_success body \<and>
      getJobStatus (run empty_store ?reqs) ''transcode_5_ab''
     = StatusOk ''transcode_5_ab'' Failed (Some body)"
    using status_reply_with_payload [OF empty src(1), where jobId = "''transcode_5_ab''"
        and job = ?row] up(1) job
    by auto
  show ?thesis using w1 w2 w3 by blast
qed

text \<open>
  Claim C5 at the preset name \<open>constructor\<close>, which is not a key of the preset table:
  the check \<open>!QUALITY_TO_PRESETS[resolutionPreset]\<close> finds the member inherited from
  \<open>Object.prototype\<close>, so the submission is accepted, the job row is persisted and a
  worker is spawned. (\<open>transcodeStart_rejects\<close> is the part of the claim that holds: a
  missing or blank key, a missing preset and a name that resolves to nothing are rejected
  with the store unchanged.)
\<close>

theorem inherited_preset_name_accepted:
  "transcodeStart empty_store
     \<lparr>req_s3Key = Some ''uploads/video.mp4'', req_resolutionPreset = Some ''constructor''\<rparr>
     5 ''ab'' 6 =
   (\<lparr>db_up = True,
     db_rows = [\<lparr>job_id = ''transcode_5_ab'', job_state = Progressing,
                 input_s3_key = ''uploads/video.mp4'',
                 output_s3_key = Some ''uploads/video_constructor.mp4'',
                 target_quality = ''constructor'', submit_ts = 6, callback_data = None\<rparr>],
     spawned = [\<lparr>arg_jobId = ''transcode_5_ab'', arg_s3Key = ''uploads/video.mp4'',
                 arg_outputS3Key = ''uploads/video_constructor.mp4'',
                 arg_resolutionPreset = ''constructor''\<rparr>]\<rparr>,
    Started ''transcode_5_ab'' ''progressing'') \<and>
   map_of QUALITY_TO_PRESETS ''constructor'' = None"
  by code_simp

section \<open>The output locator after creation\<close>

lemma transcodeStart_cases:
  "(\<exists>jobId status. transcodeStart st body now rnd ts =
       (fst (transcodeStart st body now rnd ts), Started jobId status)) \<or>
   fst (transcodeStart st body now rnd ts) = st"
  by (auto simp: transcodeStart_def Let_def dataAccess_create_def)

lemma jobCallback_db_down: "\<not> db_up st \<Longrightarrow> jobCallback st jobId body = (st, CallbackNotFound jobId)"
  by (simp add: jobCallback_def dataAccess_readOne_eq Let_def)

lemma locator_kept_handle:
  assumes r: "lookup_job st jobId = Some r" and out: "output_s3_key r = Some out"
    and ok: "\<not> rewrites_locator jobId out req"
  shows "\<exists>r'. lookup_job (handle st req) jobId = Some r' \<and> output_s3_key r' = Some out"
proof (cases req)
  case (ReqStart body now rnd ts)
  from transcodeStart_cases [of st body now rnd ts] show ?thesis
  proof
    assume "\<exists>j status. transcodeStart st body now rnd ts =
       (fst (transcodeStart st body now rnd ts), Started j status)"
    then obtain j status where s: "transcodeStart st body now rnd ts =
       (fst (transcodeStart st body now rnd ts), Started j status)" by blast
    have "lookup_job st j = None" by (rule transcodeStart_Started(5) [OF s])
    with r have "jobId \<noteq> j" by auto
    then have "lookup_job (fst (transcodeStart st body now rnd ts)) jobId = lookup_job st jobId"
      by (rule transcodeStart_Started(7) [OF s])
    with r out show ?thesis unfolding ReqStart by simp
  next
    assume "fst (transcodeStart st body now rnd ts) = st"
    with r out show ?thesis unfolding ReqStart by simp
  qed
next
  case (ReqCallback j body)
  show ?thesis
  proof (cases "db_up st")
    case False
    then show ?thesis using r out unfolding ReqCallback by (simp add: jobCallback_db_down)
  next
    case True
    show ?thesis
    proof (cases "lookup_job st j")
      case None
      then show ?thesis using r out unfolding ReqCallback by (simp add: jobCallback_unknown)
    next
      case (Some rj)
      show ?thesis
      proof (cases "j = jobId")
        case True
        with Some r have "rj = r" by simp
        then show ?thesis
          using jobCallback_known(2) [OF \<open>db_up st\<close> Some, where body = body] out ok True
          unfolding ReqCallback by (auto simp: rewrites_locator_def)
      next
        case False
        then have "jobId \<noteq> j" by auto
        then show ?thesis
          using jobCallback_known(4) [OF \<open>db_up st\<close> Some, where body = body and k = jobId] r out
          unfolding ReqCallback by simp
      qed
    qed
  qed
next
  case (ReqStatus j)
  then show ?thesis using r out by simp
next
  case (EvWorkerError j)
  then show ?thesis using r out
    by (auto simp: onWorkerError_def lookup_job_update apply_update_def)
qed

lemma locator_kept_run:
  "lookup_job st jobId = Some r \<Longrightarrow> output_s3_key r = Some out \<Longrightarrow>
   \<forall>req \<in> set reqs. \<not> rewrites_locator jobId out req \<Longrightarrow>
   \<exists>r'. lookup_job (run st reqs) jobId = Some r' \<and> output_s3_key r' = Some out"
  unfolding run_def
proof (induction reqs arbitrary: st r)
  case Nil
  then show ?case by simp
next
  case (Cons req reqs)
  from Cons.prems obtain r' where "lookup_job (handle st req) jobId = Some r'"
    "output_s3_key r' = Some out"
    using locator_kept_handle [of st jobId r out req] by auto
  then show ?case using Cons.IH [of "handle st req" r'] Cons.prems(3) by simp
qed

lemma processVideoFile_callbacks:
  "CallbackPost j b \<in> set (fst (processVideoFile env jobId s3Key outputS3Key preset)) \<Longrightarrow>
     j = jobId \<and> (\<exists>d. cb_detail b = Some d \<and> d_outputS3Key d = outputS3Key)"
  by (auto simp: processVideoFile_def reportFailure_def Let_def
      split: sum.splits option.splits)

text \<open>
  Claim C6 says that no callback changes the persisted output locator. A successful
  callback whose detail names another key overwrites it: \<open>jobCallback\<close> copies
  \<open>detail.outputS3Key\<close> into \<open>output_s3_key\<close>.
\<close>

theorem callback_overwrites_locator:
  "map_option output_s3_key (lookup_job example_store ''transcode_5_ab'')
     = Some (Some ''uploads/video_720p30av1.mp4'') \<and>
   map_option output_s3_key
     (lookup_job (fst (jobCallback example_store ''transcode_5_ab'' moved_body)) ''transcode_5_ab'')
     = Some (Some ''elsewhere/other.mp4'')"
  by code_simp

text \<open>
  Claim C6, amended. The output locator persisted for a job stays what it is under
  every run of later requests and worker events, unless one of them is a successful
  callback for the job whose detail carries a non-empty \<open>outputS3Key\<close> different from
  it; such a callback overwrites the locator with the key it carries. The callbacks that
  a worker posts carry the locator the worker was started with, so they never rewrite it.
\<close>

theorem output_locator_changes_only_by_callback:
  assumes "lookup_job st jobId = Some r" and "output_s3_key r = Some out"
  shows "((\<forall>req \<in> set reqs. \<not> rewrites_locator jobId out req) \<longrightarrow>
            map_option output_s3_key (lookup_job (run st reqs) jobId) = Some (Some out)) \<and>
         (db_up st \<longrightarrow> cb_success body \<longrightarrow> cb_detail body = Some d \<longrightarrow> d_outputS3Key d \<noteq> [] \<longrightarrow>
            map_option output_s3_key (lookup_job (fst (jobCallback st jobId body)) jobId)
              = Some (Some (d_outputS3Key d))) \<and>
         (CallbackPost j b \<in> set (fst (processVideoFile env jobId s3Key out preset)) \<longrightarrow>
            \<not> rewrites_locator jobId out (ReqCallback j b))"
proof (intro conjI impI)
  assume "\<forall>req \<in> set reqs. \<not> rewrites_locator jobId out req"
  with assms show "map_option output_s3_key (lookup_job (run st reqs) jobId) = Some (Some out)"
    using locator_kept_run [of st jobId r out reqs] by auto
next
  assume "db_up st" "cb_success body" "cb_detail body = Some d" "d_outputS3Key d \<noteq> []"
  then show "map_option output_s3_key (lookup_job (fst (jobCallback st jobId body)) jobId)
              = Some (Some (d_outputS3Key d))"
    using jobCallback_known(2) [OF \<open>db_up st\<close> assms(1), where body = body] by simp
next
  assume "CallbackPost j b \<in> set (fst (processVideoFile env jobId s3Key out preset))"
  then show "\<not> rewrites_locator jobId out (ReqCallback j b)"
    using processVideoFile_callbacks [of j b env jobId s3Key out preset]
    by (auto simp: rewrites_locator_def)
qed

theorem output_locator_changes_only_by_callback_witness:
  "map_option output_s3_key
     (lookup_job (run example_store
          [ReqStatus ''transcode_5_ab'', EvWorkerError ''transcode_5_ab'',
           ReqCallback ''transcode_5_ab'' failure_body,
           ReqCallback ''transcode_5_ab'' success_body,
           ReqStart example_body 77 ''zz'' 78]) ''transcode_5_ab'')
     = Some (Some ''uploads/video_720p30av1.mp4'') \<and>
   map_option output_s3_key
     (lookup_job (fst (jobCallback example_store ''transcode_5_ab'' moved_body)) ''transcode_5_ab'')
     = Some (Some (d_outputS3Key (example_detail\<lparr>d_outputS3Key := ''elsewhere/other.mp4''\<rparr>)))"
proof -
  let ?row = "\<lparr>job_id = ''transcode_5_ab'', job_state = Progressing,
      input_s3_key = ''uploads/video.mp4'',
      output_s3_key = Some ''uploads/video_720p30av1.mp4'', target_quality = ''720p30av1'',
      submit_ts = 6, callback_data = None\<rparr>"
  have job: "lookup_job example_store ''transcode_5_ab'' = Some ?row" by code_simp
  have out: "output_s3_key ?row = Some ''uploads/video_720p30av1.mp4''" by simp
  have benign: "\<forall>req \<in> set [ReqStatus ''transcode_5_ab'', EvWorkerError ''transcode_5_ab'',
           ReqCallback ''transcode_5_ab'' failure_body,
           ReqCallback ''transcode_5_ab'' success_body,
           ReqStart example_body 77 ''zz'' 78].
      \<not> rewrites_locator ''transcode_5_ab'' ''uploads/video_720p30av1.mp4'' req"
    by code_simp
  have up: "db_up example_store" by code_simp
  have moved: "cb_success moved_body"
    "cb_detail moved_body = Some (example_detail\<lparr>d_outputS3Key := ''elsewhere/other.mp4''\<rparr>)"
    "d_outputS3Key (example_detail\<lparr>d_outputS3Key := ''elsewhere/other.mp4''\<rparr>) \<noteq> []"
    by (simp_all add: moved_body_def)
  show ?thesis
    using output_locator_changes_only_by_callback [OF job out,
        where reqs = "[ReqStatus ''transcode_5_ab'', EvWorkerError ''transcode_5_ab'',
           ReqCallback ''transcode_5_ab'' failure_body,
           ReqCallback ''transcode_5_ab'' success_body,
           ReqStart example_body 77 ''zz'' 78]"
        and body = moved_body
        and d = "example_detail\<lparr>d_outputS3Key := ''elsewhere/other.mp4''\<rparr>"]
      benign up moved
    by blast
qed

section \<open>The worker on a missing input\<close>

text \<open>With the input in the Blob Store and every collaborator succeeding, the run
  reaches the engine and posts a success.\<close>

lemma example_run_invokes_engine:
  "map (\<lambda>e. case e of S3Get k p \<Rightarrow> ''get'' | Ffprobe p \<Rightarrow> ''probe''
                | Ffmpeg i p c \<Rightarrow> ''engine'' | S3Put p k m \<Rightarrow> ''put''
                | CallbackPost j b \<Rightarrow> (if cb_success b then ''ok'' else ''failed''))
     (fst (worker_main example_env
             [''transcode_5_ab'', ''uploads/video.mp4'', ''uploads/video_720p30av1.mp4'',
              ''720p30av1'']))
   = [''get'', ''probe'', ''engine'', ''put'', ''ok'']"
  by code_simp

text \<open>
  Arguments that pass the two validations of \<open>main\<close> (as the arguments the controller
  dispatches do, having passed the same checks in \<open>transcodeStart\<close>): the worker
  process does what \<open>processVideoFile\<close> does.
\<close>

lemma worker_main_validated:
  assumes "trim s3Key \<noteq> []" and "js_get QUALITY_TO_PRESETS preset \<noteq> Undefined"
  shows "fst (worker_main env [jobId, s3Key, outputS3Key, preset]) =
           fst (processVideoFile env jobId s3Key outputS3Key preset)"
proof -
  have "s3Key \<noteq> []" using assms(1) by (auto simp: trim_def)
  then show ?thesis using assms
    by (simp add: worker_main_def split: prod.splits sum.splits)
qed

text \<open>
  Claim C10. When the input key is not in the Blob Store, a run of \<open>processVideoFile\<close>
  never invokes the Transcoding Engine, its last act is to post a callback with
  \<open>success: false\<close> whose detail has a non-empty \<open>errorStack\<close>, and it ends by throwing.
  The worker process started with these arguments exits with code 1 without invoking the
  engine; when the arguments pass the validations of \<open>main\<close>, its calls are those of
  \<open>processVideoFile\<close>, so the failure callback is posted.
\<close>

theorem missing_input_reports_failure:
  assumes "map_of (env_blobs env) s3Key = None"
  shows "(\<forall>i p c. Ffmpeg i p c \<notin> set (fst (processVideoFile env jobId s3Key outputS3Key preset))) \<and>
         (\<exists>body d. last (fst (processVideoFile env jobId s3Key outputS3Key preset))
                      = CallbackPost jobId body \<and>
                    \<not> cb_success body \<and> cb_detail body = Some d \<and> d_errorStack d \<noteq> []) \<and>
         isl (snd (processVideoFile env jobId s3Key outputS3Key preset)) \<and>
         snd (worker_main env [jobId, s3Key, outputS3Key, preset]) = 1 \<and>
         (\<forall>i p c. Ffmpeg i p c \<notin> set (fst (worker_main env [jobId, s3Key, outputS3Key, preset]))) \<and>
         (trim s3Key \<noteq> [] \<longrightarrow> js_get QUALITY_TO_PRESETS preset \<noteq> Undefined \<longrightarrow>
            fst (worker_main env [jobId, s3Key, outputS3Key, preset]) =
            fst (processVideoFile env jobId s3Key outputS3Key preset))"
  using assms worker_main_validated [of s3Key preset env jobId outputS3Key]
  by (simp add: processVideoFile_def downloadFile_def reportFailure_def Let_def
      error_stack_def worker_main_def)

theorem missing_input_reports_failure_witness:
  "map_of (env_blobs example_env) ''uploads/missing.mp4'' = None \<and>
   fst (processVideoFile example_env ''transcode_5_ab'' ''uploads/missing.mp4''
          ''uploads/missing_720p30av1.mp4'' ''720p30av1'')
     = [S3Get ''uploads/missing.mp4'' ''/app/temp/input_7_missing.mp4'',
        CallbackPost ''transcode_5_ab''
          \<lparr>cb_success = False,
           cb_detail = Some \<lparr>d_inputS3Key = ''uploads/missing.mp4'',
                             d_outputS3Key = ''uploads/missing_720p30av1.mp4'',
                             d_quality = ''720p30av1'', d_jobId = ''transcode_5_ab'',
                             d_jobDuration = ''15432.50 ms'',
                             d_command = ''transcoding error command'',
                             d_errorStack = ''NoSuchKey: The specified key does not exist.''\<rparr>\<rparr>] \<and>
   isl (snd (processVideoFile example_env ''transcode_5_ab'' ''uploads/missing.mp4''
          ''uploads/missing_720p30av1.mp4'' ''720p30av1'')) \<and>
   snd (worker_main example_env [''transcode_5_ab'', ''uploads/missing.mp4'',
          ''uploads/missing_720p30av1.mp4'', ''720p30av1'']) = 1 \<and>
   fst (worker_main example_env [''transcode_5_ab'', ''uploads/missing.mp4'',
          ''uploads/missing_720p30av1.mp4'', ''720p30av1''])
     = fst (processVideoFile example_env ''transcode_5_ab'' ''uploads/missing.mp4''
          ''uploads/missing_720p30av1.mp4'' ''720p30av1'')"
proof -
  have missing: "map_of (env_blobs example_env) ''uploads/missing.mp4'' = None" by code_simp
  have valid: "trim ''uploads/missing.mp4'' \<noteq> []"
    "js_get QUALITY_TO_PRESETS ''720p30av1'' \<noteq> Undefined"
    by code_simp+
  have events: "fst (processVideoFile example_env ''transcode_5_ab'' ''uploads/missing.mp4''
          ''uploads/missing_720p30av1.mp4'' ''720p30av1'')
     = [S3Get ''uploads/missing.mp4'' ''/app/temp/input_7_missing.mp4'',
        CallbackPost ''transcode_5_ab''
          \<lparr>cb_success = False,
           cb_detail = Some \<lparr>d_inputS3Key = ''uploads/missing.mp4'',
                             d_outputS3Key = ''uploads/missing_720p30av1.mp4'',
                             d_quality = ''720p30av1'', d_jobId = ''transcode_5_ab'',
                             d_jobDuration = ''15432.50 ms'',
                             d_command = ''transcoding error command'',
                             d_errorStack = ''NoSuchKey: The specified key does not exist.''\<rparr>\<rparr>]"
    by code_simp
  show ?thesis
    using missing_input_reports_failure [OF missing, of "''transcode_5_ab''"
        "''uploads/missing_720p30av1.mp4''" "''720p30av1''"] missing events valid
    by simp
qed

section \<open>The order of the filter chain\<close>

lemma find_distinct_key:
  "distinct (map key_of fs) \<Longrightarrow>
     (List.find (\<lambda>e. key_of e = k) fs = Some e) = (e \<in> set fs \<and> key_of e = k)"
  by (induction fs) (auto simp: image_iff)

lemma filter_prop_perm:
  assumes "distinct (map key_of fs)" and "mset fs' = mset fs"
  shows "filter_prop fs' k = filter_prop fs k"
proof -
  have s: "set fs' = set fs" using assms(2) by (rule mset_eq_setD)
  have "mset (map key_of fs') = mset (map key_of fs)" using assms(2) by simp
  then have d': "distinct (map key_of fs')"
    using assms(1) mset_eq_imp_distinct_iff by blast
  have d1: "distinct (map key_of (rev fs))" using assms(1) by (simp add: rev_map [symmetric])
  have d2: "distinct (map key_of (rev fs'))" using d' by (simp add: rev_map [symmetric])
  show ?thesis
  proof (cases "filter_prop fs k")
    case None
    then have "filter_prop fs' k = None"
      using s by (simp add: filter_prop_def find_None_iff)
    with None show ?thesis by simp
  next
    case (Some e)
    then have "e \<in> set fs \<and> key_of e = k"
      using find_distinct_key [OF d1, of k e] by (simp add: filter_prop_def)
    then have "List.find (\<lambda>e. key_of e = k) (rev fs') = Some e"
      using find_distinct_key [OF d2, of k e] s by simp
    with Some show ?thesis by (simp add: filter_prop_def)
  qed
qed

lemma filterChain_perm:
  assumes "distinct (map key_of fs)" and "mset fs' = mset fs"
  shows "filterChain fs' = filterChain fs"
  by (simp add: filterChain_def scale_part_def fps_part_def deinterlace_part_def
      denoise_part_def crop_part_def pad_part_def custom_part_def
      filter_prop_perm [OF assms])

lemma join_Cons: "join sep (x # xs) = x @ (if xs = [] then [] else sep @ join sep xs)"
  by (cases xs) auto

lemma join_contains: "\<exists>pre post. join sep (xs @ c # ys) = pre @ c @ post"
proof (induction xs)
  case Nil
  show ?case by (metis append_Nil join_Cons)
next
  case (Cons x xs)
  then obtain pre post where "join sep (xs @ c # ys) = pre @ c @ post" by blast
  then have "join sep ((x # xs) @ c # ys) = (x @ sep @ pre) @ c @ post"
    by (simp add: join_Cons)
  then show ?case by blast
qed

lemma scale_before_crop:
  assumes "filter_prop filters KScale = Some (Scale w h opts)"
    and "filter_prop filters KCrop = Some (Crop cw ch x y)"
  shows "\<exists>mid rest. join '','' (filterChain filters) =
           generateScaleFilter w h opts @ mid @ hd (crop_part filters) @ rest"
proof -
  define before where "before = fps_part filters @ deinterlace_part filters @ denoise_part filters"
  define after where "after = pad_part filters @ custom_part filters"
  have c: "crop_part filters = [hd (crop_part filters)]"
    using assms(2) by (simp add: crop_part_def)
  have "filterChain filters =
          generateScaleFilter w h opts # (before @ hd (crop_part filters) # after)"
    using assms(1) c by (simp add: filterChain_def scale_part_def before_def after_def)
  moreover obtain pre post where
    "join '','' (before @ hd (crop_part filters) # after) = pre @ hd (crop_part filters) @ post"
    using join_contains by blast
  ultimately have "join '','' (filterChain filters) =
      generateScaleFilter w h opts @ ('','' @ pre) @ hd (crop_part filters) @ post"
    by (simp add: join_Cons)
  then show ?thesis by blast
qed

text \<open>
  The chain of the source is the chain of the specification: each \<open>if\<close> statement
  contributes the text of the entry under its key, and the entries found by the seven
  statements are the entries of the filter object sorted by \<open>rank\<close>.
\<close>

lemma find_SomeD: "List.find P xs = Some x \<Longrightarrow> P x \<and> x \<in> set xs"
  by (induction xs) (auto split: if_splits)

lemma filter_prop_Some:
  "filter_prop filters k = Some e \<Longrightarrow> key_of e = k \<and> e \<in> set filters"
  using find_SomeD [of "\<lambda>e. key_of e = k" "rev filters" e] by (simp add: filter_prop_def)

lemma filter_prop_member:
  assumes "distinct (map key_of filters)" and "e \<in> set filters"
  shows "filter_prop filters (key_of e) = Some e"
proof -
  have "distinct (map key_of (rev filters))" using assms(1) by (simp add: rev_map [symmetric])
  then show ?thesis
    using find_distinct_key [of "rev filters" "key_of e" e] assms(2)
    by (simp add: filter_prop_def)
qed

lemma part_texts:
  "scale_part filters = concat (map filter_text (entry_list (filter_prop filters KScale)))"
  "fps_part filters = concat (map filter_text (entry_list (filter_prop filters KFps)))"
  "deinterlace_part filters = concat (map filter_text (entry_list (filter_prop filters KDeinterlace)))"
  "denoise_part filters = concat (map filter_text (entry_list (filter_prop filters KDenoise)))"
  "crop_part filters = concat (map filter_text (entry_list (filter_prop filters KCrop)))"
  "pad_part filters = concat (map filter_text (entry_list (filter_prop filters KPad)))"
  "custom_part filters = concat (map filter_text (entry_list (filter_prop filters KCustom)))"
  by (auto simp: scale_part_def fps_part_def deinterlace_part_def denoise_part_def
      crop_part_def pad_part_def custom_part_def entry_list_def
      split: option.splits filter_entry.splits dest: filter_prop_Some)

lemma filterChain_entries:
  "filterChain filters = concat (map filter_text (entries_by_key filters))"
  by (simp add: filterChain_def entries_by_key_def part_texts)

lemma keys_entry_list:
  "map key_of (entry_list (filter_prop filters k)) = (if filter_prop filters k = None then [] else [k])"
  by (auto simp: entry_list_def split: option.splits dest: filter_prop_Some)

lemma keys_entries_by_key:
  "distinct (map key_of (entries_by_key filters))"
  "sorted (map (rank \<circ> key_of) (entries_by_key filters))"
  by (simp_all add: entries_by_key_def keys_entry_list map_map [symmetric] sorted_append
      del: map_map)

lemma set_entries_by_key:
  assumes "distinct (map key_of filters)"
  shows "set (entries_by_key filters) = set filters"
proof
  show "set (entries_by_key filters) \<subseteq> set filters"
    by (auto simp: entries_by_key_def entry_list_def split: option.splits
        dest: filter_prop_Some [OF sym])
  show "set filters \<subseteq> set (entries_by_key filters)"
  proof
    fix e assume "e \<in> set filters"
    then have "filter_prop filters (key_of e) = Some e"
      by (rule filter_prop_member [OF assms])
    then show "e \<in> set (entries_by_key filters)"
      by (cases "key_of e") (simp_all add: entries_by_key_def entry_list_def)
  qed
qed

lemma filter_same_key:
  "distinct (map g xs) \<Longrightarrow> e \<in> set xs \<Longrightarrow> filter (\<lambda>x. g e = g x) xs = [e]"
  by (induction xs) (auto simp: image_iff filter_empty_conv)

lemma rank_inj: "(rank a = rank b) = (a = b)"
  by (cases a; cases b) simp_all

lemma sort_by_rank:
  assumes "distinct (map key_of filters)"
  shows "sort_key (rank \<circ> key_of) filters = entries_by_key filters"
proof (rule properties_for_sort_key)
  have "distinct (entries_by_key filters)"
    using keys_entries_by_key(1) by (rule distinct_map [THEN iffD1, THEN conjunct1])
  moreover have "distinct filters"
    using assms by (rule distinct_map [THEN iffD1, THEN conjunct1])
  ultimately show "mset (entries_by_key filters) = mset filters"
    using set_entries_by_key [OF assms] by (simp add: set_eq_iff_mset_eq_distinct)
  show "sorted (map (rank \<circ> key_of) (entries_by_key filters))"
    by (rule keys_entries_by_key(2))
  fix e assume e: "e \<in> set (entries_by_key filters)"
  then have e': "e \<in> set filters" using set_entries_by_key [OF assms] by simp
  show "filter (\<lambda>x. (rank \<circ> key_of) e = (rank \<circ> key_of) x) (entries_by_key filters) =
        filter (\<lambda>x. (rank \<circ> key_of) e = (rank \<circ> key_of) x) filters"
    using filter_same_key [OF keys_entries_by_key(1) e] filter_same_key [OF assms e']
    by (simp add: rank_inj)
qed

lemma filterChain_fixed_order:
  "distinct (map key_of filters) \<Longrightarrow> filterChain filters = chain_in_fixed_order filters"
  by (simp add: filterChain_entries chain_in_fixed_order_def sort_by_rank)

text \<open>
  Claim C7. For a filter object (its keys distinct) in any insertion order, the chain that
  \<open>generateVideoFilters\<close> builds is the entries sorted into the order scale, fps,
  deinterlace, denoise, crop, pad, custom, each rendered as its filter text, and the
  result is \<open>-vf\<close> followed by that chain joined with commas (nothing when the chain is
  empty). A filter object with the same entries in another insertion order gives the same
  result. With both a scale and a crop entry the joined text has the scale filter first
  and the crop filter after it; for \<open>{crop, scale}\<close> inserted in this order the text is
  the scale filter, a comma, the crop filter; and for all seven keys inserted in the
  reverse of the fixed order the text lists the seven filters in the fixed order.
\<close>

theorem filter_chain_order_fixed:
  "(distinct (map key_of filters) \<longrightarrow>
      filterChain filters = chain_in_fixed_order filters \<and>
      generateVideoFilters filters =
        (if chain_in_fixed_order filters = [] then []
         else [''-vf'', join '','' (chain_in_fixed_order filters)])) \<and>
   (distinct (map key_of filters) \<longrightarrow> mset filters' = mset filters \<longrightarrow>
      generateVideoFilters filters' = generateVideoFilters filters) \<and>
   (filter_prop filters KScale = Some (Scale w h opts) \<longrightarrow>
    filter_prop filters KCrop = Some (Crop cw ch x y) \<longrightarrow>
      (\<exists>mid rest. join '','' (filterChain filters) =
         generateScaleFilter w h opts @ mid
         @ (''crop='' @ show_int cw @ '':'' @ show_int ch @ '':''
            @ show_int (case x of None \<Rightarrow> 0 | Some v \<Rightarrow> v) @ '':''
            @ show_int (case y of None \<Rightarrow> 0 | Some v \<Rightarrow> v)) @ rest)) \<and>
   generateVideoFilters [Crop 100 100 None None, Scale 640 360 None] =
     [''-vf'', ''scale=640:360:force_original_aspect_ratio=decrease:flags=bicubic,crop=100:100:0:0''] \<and>
   generateVideoFilters
     [Custom [''hflip''], Pad 1920 1080 None None None, Crop 100 100 None None,
      Denoise None, Deinterlace True, Fps 30, Scale 640 360 None] =
     [''-vf'', ''scale=640:360:force_original_aspect_ratio=decrease:flags=bicubic,fps=30,yadif,hqdn3d=default,crop=100:100:0:0,pad=1920:1080:0:0:black,hflip'']"
proof (intro conjI impI)
  show "filterChain filters = chain_in_fixed_order filters"
    if "distinct (map key_of filters)"
    using that by (rule filterChain_fixed_order)
  show "generateVideoFilters filters =
        (if chain_in_fixed_order filters = [] then []
         else [''-vf'', join '','' (chain_in_fixed_order filters)])"
    if "distinct (map key_of filters)"
    using filterChain_fixed_order [OF that] by (simp add: generateVideoFilters_def)
  show "generateVideoFilters filters' = generateVideoFilters filters"
    if "distinct (map key_of filters)" "mset filters' = mset filters"
    using filterChain_perm [OF that] by (simp add: generateVideoFilters_def)
  show "\<exists>mid rest. join '','' (filterChain filters) =
         generateScaleFilter w h opts @ mid
         @ (''crop='' @ show_int cw @ '':'' @ show_int ch @ '':''
            @ show_int (case x of None \<Rightarrow> 0 | Some v \<Rightarrow> v) @ '':''
            @ show_int (case y of None \<Rightarrow> 0 | Some v \<Rightarrow> v)) @ rest"
    if "filter_prop filters KScale = Some (Scale w h opts)"
      "filter_prop filters KCrop = Some (Crop cw ch x y)"
    using scale_before_crop [OF that] that(2) by (simp add: crop_part_def)
  show "generateVideoFilters [Crop 100 100 None None, Scale 640 360 None] =
     [''-vf'', ''scale=640:360:force_original_aspect_ratio=decrease:flags=bicubic,crop=100:100:0:0'']"
    by code_simp
  show "generateVideoFilters
     [Custom [''hflip''], Pad 1920 1080 None None None, Crop 100 100 None None,
      Denoise None, Deinterlace True, Fps 30, Scale 640 360 None] =
     [''-vf'', ''scale=640:360:force_original_aspect_ratio=decrease:flags=bicubic,fps=30,yadif,hqdn3d=default,crop=100:100:0:0,pad=1920:1080:0:0:black,hflip'']"
    by code_simp
qed

theorem filter_chain_order_fixed_witness:
  "distinct (map key_of [Custom [''hflip''], Denoise (Some (JNum 4)), Crop 100 100 None None,
                         Fps 24, Scale 640 360 None]) \<and>
   filterChain [Custom [''hflip''], Denoise (Some (JNum 4)), Crop 100 100 None None,
                Fps 24, Scale 640 360 None]
     = [''scale=640:360:force_original_aspect_ratio=decrease:flags=bicubic'', ''fps=24'',
        ''hqdn3d=4'', ''crop=100:100:0:0'', ''hflip''] \<and>
   generateVideoFilters [Custom [''hflip''], Denoise (Some (JNum 4)), Crop 100 100 None None,
                         Fps 24, Scale 640 360 None]
     = [''-vf'', ''scale=640:360:force_original_aspect_ratio=decrease:flags=bicubic,fps=24,hqdn3d=4,crop=100:100:0:0,hflip''] \<and>
   mset [Scale 640 360 None, Crop 100 100 None None, Fps 24]
     = mset [Crop 100 100 None None, Fps 24, Scale 640 360 None] \<and>
   generateVideoFilters [Scale 640 360 None, Crop 100 100 None None, Fps 24]
     = generateVideoFilters [Crop 100 100 None None, Fps 24, Scale 640 360 None] \<and>
   (\<exists>mid rest. join '','' (filterChain [Crop 100 100 None None, Fps 24, Scale 640 360 None]) =
         generateScaleFilter 640 360 None @ mid @ ''crop=100:100:0:0'' @ rest)"
proof -
  have d5: "distinct (map key_of [Custom [''hflip''], Denoise (Some (JNum 4)),
      Crop 100 100 None None, Fps 24, Scale 640 360 None])" by simp
  have fixed: "chain_in_fixed_order [Custom [''hflip''], Denoise (Some (JNum 4)),
      Crop 100 100 None None, Fps 24, Scale 640 360 None]
     = [''scale=640:360:force_original_aspect_ratio=decrease:flags=bicubic'', ''fps=24'',
        ''hqdn3d=4'', ''crop=100:100:0:0'', ''hflip'']"
    by code_simp
  have joined: "join '',''
       [''scale=640:360:force_original_aspect_ratio=decrease:flags=bicubic'', ''fps=24'',
        ''hqdn3d=4'', ''crop=100:100:0:0'', ''hflip'']
     = ''scale=640:360:force_original_aspect_ratio=decrease:flags=bicubic,fps=24,hqdn3d=4,crop=100:100:0:0,hflip''"
    by code_simp
  note first = filter_chain_order_fixed [where filters = "[Custom [''hflip''],
      Denoise (Some (JNum 4)), Crop 100 100 None None, Fps 24, Scale 640 360 None]",
      THEN conjunct1, rule_format, OF d5]
  have w1: "filterChain [Custom [''hflip''], Denoise (Some (JNum 4)), Crop 100 100 None None,
                Fps 24, Scale 640 360 None]
     = [''scale=640:360:force_original_aspect_ratio=decrease:flags=bicubic'', ''fps=24'',
        ''hqdn3d=4'', ''crop=100:100:0:0'', ''hflip'']"
    using first fixed by simp
  have w2: "generateVideoFilters [Custom [''hflip''], Denoise (Some (JNum 4)),
      Crop 100 100 None None, Fps 24, Scale 640 360 None]
     = [''-vf'', ''scale=640:360:force_original_aspect_ratio=decrease:flags=bicubic,fps=24,hqdn3d=4,crop=100:100:0:0,hflip'']"
    using first fixed joined by simp
  have d: "distinct (map key_of [Crop 100 100 None None, Fps 24, Scale 640 360 None])" by simp
  have m: "mset [Scale 640 360 None, Crop 100 100 None None, Fps 24]
     = mset [Crop 100 100 None None, Fps 24, Scale 640 360 None]" by simp
  have w3: "generateVideoFilters [Scale 640 360 None, Crop 100 100 None None, Fps 24]
     = generateVideoFilters [Crop 100 100 None None, Fps 24, Scale 640 360 None]"
    using filter_chain_order_fixed [where filters = "[Crop 100 100 None None, Fps 24, Scale 640 360 None]"
        and filters' = "[Scale 640 360 None, Crop 100 100 None None, Fps 24]",
        THEN conjunct2, THEN conjunct1, rule_format, OF d m] .
  have s: "filter_prop [Crop 100 100 None None, Fps 24, Scale 640 360 None] KScale
             = Some (Scale 640 360 None)" by code_simp
  have c: "filter_prop [Crop 100 100 None None, Fps 24, Scale 640 360 None] KCrop
             = Some (Crop 100 100 None None)" by code_simp
  have t: "show_int 100 = ''100''" "show_int 0 = ''0''"
    by code_simp+
  have w4: "\<exists>mid rest. join '','' (filterChain [Crop 100 100 None None, Fps 24, Scale 640 360 None]) =
         generateScaleFilter 640 360 None @ mid @ ''crop=100:100:0:0'' @ rest"
    using filter_chain_order_fixed [where filters = "[Crop 100 100 None None, Fps 24, Scale 640 360 None]"
        and w = 640 and h = 360 and opts = None and cw = 100 and ch = 100 and x = None and y = None,
        THEN conjunct2, THEN conjunct2, THEN conjunct1, rule_format, OF s c] t
    by simp
  show ?thesis
    apply (intro conjI)
    apply (rule d5) apply (rule w1) apply (rule w2) apply (rule m) apply (rule w3) apply (rule w4)
    done
qed

section \<open>The Configuration Resolver: overrides\<close>

text \<open>
  Claim C8. For a quality name that the preset table resolves to a preset: an empty
  \<open>filters\<close> override gives the result of passing the preset's own filters, and an
  empty \<open>advanced\<close> override the result of passing the preset's own advanced object;
  with a non-empty override the result does not depend on what the preset holds in that
  field (replacing the preset's value by any other leaves the result unchanged), so the
  override replaces the preset's value and nothing of it is merged in.
\<close>

theorem override_replaces_preset:
  assumes "presets (quality_name opts) = Own p"
  shows "(opt_filters opts = [] \<longrightarrow>
            createTranscodingConfigFrom presets opts =
            createTranscodingConfigFrom presets (opts\<lparr>opt_filters := qp_filters p\<rparr>)) \<and>
         (opt_filters opts \<noteq> [] \<longrightarrow>
            createTranscodingConfigFrom
              (presets((quality_name opts)
                 := Own (p\<lparr>qp_filters := otherFilters\<rparr>))) opts =
            createTranscodingConfigFrom presets opts) \<and>
         (opt_advanced opts = [] \<longrightarrow>
            createTranscodingConfigFrom presets opts =
            createTranscodingConfigFrom presets (opts\<lparr>opt_advanced := qp_advanced p\<rparr>)) \<and>
         (opt_advanced opts \<noteq> [] \<longrightarrow>
            createTranscodingConfigFrom
              (presets((quality_name opts)
                 := Own (p\<lparr>qp_advanced := otherAdvanced\<rparr>))) opts =
            createTranscodingConfigFrom presets opts)"
proof (intro conjI impI)
  assume "opt_filters opts = []"
  then show "createTranscodingConfigFrom presets opts =
            createTranscodingConfigFrom presets (opts\<lparr>opt_filters := qp_filters p\<rparr>)"
    using assms by (simp add: createTranscodingConfigFrom_def quality_name_def Let_def cong del: if_weak_cong sum.case_cong_weak option.case_cong_weak cong: if_cong sum.case_cong option.case_cong)
next
  assume "opt_filters opts \<noteq> []"
  then show "createTranscodingConfigFrom
              (presets((quality_name opts)
                 := Own (p\<lparr>qp_filters := otherFilters\<rparr>))) opts =
            createTranscodingConfigFrom presets opts"
    using assms by (simp add: createTranscodingConfigFrom_def quality_name_def Let_def preset_num_def preset_str_def cong del: if_weak_cong sum.case_cong_weak option.case_cong_weak cong: if_cong sum.case_cong option.case_cong)
next
  assume "opt_advanced opts = []"
  then show "createTranscodingConfigFrom presets opts =
            createTranscodingConfigFrom presets (opts\<lparr>opt_advanced := qp_advanced p\<rparr>)"
    using assms by (simp add: createTranscodingConfigFrom_def quality_name_def Let_def cong del: if_weak_cong sum.case_cong_weak option.case_cong_weak cong: if_cong sum.case_cong option.case_cong)
next
  assume "opt_advanced opts \<noteq> []"
  then show "createTranscodingConfigFrom
              (presets((quality_name opts)
                 := Own (p\<lparr>qp_advanced := otherAdvanced\<rparr>))) opts =
            createTranscodingConfigFrom presets opts"
    using assms by (simp add: createTranscodingConfigFrom_def quality_name_def Let_def preset_num_def preset_str_def cong del: if_weak_cong sum.case_cong_weak option.case_cong_weak cong: if_cong sum.case_cong option.case_cong)
qed

text \<open>
  On the table of the source: the entry \<open>720p30av1\<close>, and the resolver on the overrides of
  the repository's transcoder test, where neither the preset's \<open>fps=30\<close> nor its
  \<open>-svtav1-params\<close> appear in the result.
\<close>

lemma table_720p30av1: "js_get QUALITY_TO_PRESETS ''720p30av1'' = Own preset_720p30av1"
  by code_simp

lemma example_test_config:
  "createTranscodingConfig test_options =
     Inr \<lparr>cfg_input_path = ''/app/temp/input_7_video.mp4'',
          cfg_output =
            [(''videoCodec'', JStr ''libsvtav1''), (''audioCodec'', JStr ''aac''),
             (''format'', JStr ''mp4''), (''crf'', JNum 49), (''preset'', JStr ''12''),
             (''width'', JNum 1280), (''height'', JNum 720), (''audioBitrate'', JStr ''96k''),
             (''crf'', JNum 50), (''preset'', JStr ''11''),
             (''additionalArgs'', JArr [''-vsync'', ''0'']),
             (''additionalArgs'',
              JArr [''-vsync'', ''0'', ''-vf'',
                    ''scale=854:480:force_original_aspect_ratio=decrease:flags=bicubic,fps=24''])]\<rparr>"
  by code_simp

theorem override_replaces_preset_witness:
  "createTranscodingConfig plain_options =
     createTranscodingConfig (plain_options\<lparr>opt_filters := [Fps 30]\<rparr>) \<and>
   createTranscodingConfig plain_options =
     createTranscodingConfig (plain_options\<lparr>opt_advanced := qp_advanced preset_720p30av1\<rparr>) \<and>
   createTranscodingConfigFrom
     ((js_get QUALITY_TO_PRESETS)(''720p30av1'' :=
         Own (preset_720p30av1\<lparr>qp_filters := [Deinterlace True]\<rparr>))) test_options =
     createTranscodingConfig test_options \<and>
   createTranscodingConfigFrom
     ((js_get QUALITY_TO_PRESETS)(''720p30av1'' :=
         Own (preset_720p30av1\<lparr>qp_advanced := [(''crf'', JNum 20)]\<rparr>))) test_options =
     createTranscodingConfig test_options \<and>
   map_option (\<lambda>c. js_prop (cfg_output c) ''additionalArgs'')
     (case createTranscodingConfig test_options of Inl e \<Rightarrow> None | Inr c \<Rightarrow> Some c) =
     Some (Some (JArr [''-vsync'', ''0'', ''-vf'',
       ''scale=854:480:force_original_aspect_ratio=decrease:flags=bicubic,fps=24'']))"
proof -
  have q: "quality_name plain_options = ''720p30av1''"
    "quality_name test_options = ''720p30av1''"
    by (simp_all add: quality_name_def plain_options_def test_options_def)
  have f: "opt_filters plain_options = []" "opt_advanced plain_options = []"
    "opt_filters test_options \<noteq> []" "opt_advanced test_options \<noteq> []"
    "qp_filters preset_720p30av1 = [Fps 30]"
    by (simp_all add: plain_options_def test_options_def preset_720p30av1_def)
  have a: "js_prop (cfg_output
     \<lparr>cfg_input_path = ''/app/temp/input_7_video.mp4'',
          cfg_output =
            [(''videoCodec'', JStr ''libsvtav1''), (''audioCodec'', JStr ''aac''),
             (''format'', JStr ''mp4''), (''crf'', JNum 49), (''preset'', JStr ''12''),
             (''width'', JNum 1280), (''height'', JNum 720), (''audioBitrate'', JStr ''96k''),
             (''crf'', JNum 50), (''preset'', JStr ''11''),
             (''additionalArgs'', JArr [''-vsync'', ''0'']),
             (''additionalArgs'',
              JArr [''-vsync'', ''0'', ''-vf'',
                    ''scale=854:480:force_original_aspect_ratio=decrease:flags=bicubic,fps=24''])]\<rparr>)
      ''additionalArgs'' = Some (JArr [''-vsync'', ''0'', ''-vf'',
       ''scale=854:480:force_original_aspect_ratio=decrease:flags=bicubic,fps=24''])"
    by code_simp
  note plain = override_replaces_preset [where presets = "js_get QUALITY_TO_PRESETS"
        and opts = plain_options and p = preset_720p30av1, unfolded q, OF table_720p30av1]
  note test = override_replaces_preset [where presets = "js_get QUALITY_TO_PRESETS"
        and opts = test_options and p = preset_720p30av1
        and otherFilters = "[Deinterlace True]" and otherAdvanced = "[(''crf'', JNum 20)]",
        unfolded q, OF table_720p30av1]
  have c1: "createTranscodingConfig plain_options =
     createTranscodingConfig (plain_options\<lparr>opt_filters := [Fps 30]\<rparr>)"
    using plain f unfolding createTranscodingConfig_def by metis
  have c2: "createTranscodingConfig plain_options =
     createTranscodingConfig (plain_options\<lparr>opt_advanced := qp_advanced preset_720p30av1\<rparr>)"
    using plain f unfolding createTranscodingConfig_def by metis
  have c3: "createTranscodingConfigFrom
     ((js_get QUALITY_TO_PRESETS)(''720p30av1'' :=
         Own (preset_720p30av1\<lparr>qp_filters := [Deinterlace True]\<rparr>))) test_options =
     createTranscodingConfig test_options"
    using test f unfolding createTranscodingConfig_def by metis
  have c4: "createTranscodingConfigFrom
     ((js_get QUALITY_TO_PRESETS)(''720p30av1'' :=
         Own (preset_720p30av1\<lparr>qp_advanced := [(''crf'', JNum 20)]\<rparr>))) test_options =
     createTranscodingConfig test_options"
    using test f unfolding createTranscodingConfig_def by metis
  have c5: "map_option (\<lambda>c. js_prop (cfg_output c) ''additionalArgs'')
     (case createTranscodingConfig test_options of Inl e \<Rightarrow> None | Inr c \<Rightarrow> Some c) =
     Some (Some (JArr [''-vsync'', ''0'', ''-vf'',
       ''scale=854:480:force_original_aspect_ratio=decrease:flags=bicubic,fps=24'']))"
    unfolding example_test_config using a by simp
  show ?thesis using c1 c2 c3 c4 c5 by blast
qed

section \<open>The Configuration Resolver: validation\<close>

text \<open>Inversion of the error-propagating case expressions of the resolver.\<close>

lemma sum_bind_InrE:
  assumes "(case x of Inl e \<Rightarrow> Inl e | Inr v \<Rightarrow> f v) = Inr r"
  obtains v where "x = Inr v" and "f v = Inr r"
  using assms by (cases x) auto

lemma if_Inl_InrE:
  assumes "(if c then Inl e else y) = Inr r"
  obtains "\<not> c" and "y = Inr r"
  using assms by (cases c) auto

lemma option_Inl_InrE:
  assumes "(case m of None \<Rightarrow> Inl e | Some v \<Rightarrow> f v) = Inr r"
  obtains v where "m = Some v" and "f v = Inr r"
  using assms by (cases m) auto

lemma accepted_validated:
  assumes "createTranscodingConfigFrom presets opts = Inr cfg"
  shows "validateOutput (cfg_output cfg) = Inr ()"
  using assms unfolding createTranscodingConfigFrom_def
  by (auto simp: Let_def elim!: sum_bind_InrE if_Inl_InrE option_Inl_InrE)

lemma own_video_codec:
  "js_get VIDEO_CODECS k = Own c \<Longrightarrow>
     vc_quality_min c = 0 \<and> vc_quality_max c = 63 \<and> vc_default_crf c = 60 \<and>
     vc_default_preset c = ''16'' \<and> vc_default_width c = 896 \<and> vc_default_height c = 504"
  by (auto simp: js_get_def VIDEO_CODECS_def split: if_splits option.splits)

lemma validateOutput_ok:
  "(validateOutput out = Inr ()) =
     (\<not> not_positive (js_prop out ''width'') \<and> \<not> not_positive (js_prop out ''height'') \<and>
      \<not> not_positive (js_prop out ''framerate'') \<and>
      \<not> (truthy (js_prop out ''crf'') \<and>
         (\<not> is_number (js_prop out ''crf'') \<or> number_of (js_prop out ''crf'') < 0 \<or>
          number_of (js_prop out ''crf'') > 51)))"
  by (simp add: validateOutput_def Let_def not_positive_def)

lemma unknown_codec_rejected:
  "validateInput (opt_input_path opts) = Inr () \<Longrightarrow>
   js_get VIDEO_CODECS (videoCodec_name opts) = Undefined \<Longrightarrow>
   createTranscodingConfigFrom presets opts =
     Inl (Error (''Unsupported video codec: '' @ videoCodec_name opts))"
  by (simp add: createTranscodingConfigFrom_def videoCodec_name_def Let_def)

text \<open>
  Claim C9 says that an invalid preset name is a hard failure and that no value is
  silently defaulted. With both overrides non-empty the unknown preset name
  \<open>4k-mystery\<close> is accepted, and width, height, quality and speed are the defaults of
  the codec (the quality then replaced by the caller's override).
\<close>

theorem unknown_preset_defaulted:
  "js_get QUALITY_TO_PRESETS (quality_name mystery_options) = Undefined \<and>
   createTranscodingConfig mystery_options =
     Inr \<lparr>cfg_input_path = ''/app/temp/input_7_video.mp4'',
          cfg_output =
            [(''videoCodec'', JStr ''libsvtav1''), (''audioCodec'', JStr ''aac''),
             (''format'', JStr ''mp4''), (''crf'', JNum 60), (''preset'', JStr ''16''),
             (''width'', JNum 896), (''height'', JNum 504), (''audioBitrate'', JStr ''96k''),
             (''crf'', JNum 30), (''additionalArgs'', JArr [''-vf'', ''fps=30''])]\<rparr>"
  by code_simp

text \<open>
  The resolver on a preset name that resolves to nothing, with both overrides non-empty:
  the object literal holds the defaults of the codec, the advanced override is spread
  over it, and \<open>validateOutput\<close> decides.
\<close>

lemma js_prop_append:
  "js_prop (xs @ ys) k = (case js_prop ys k of None \<Rightarrow> js_prop xs k | Some v \<Rightarrow> Some v)"
  by (simp add: js_prop_def map_add_def split: option.splits)

lemma js_prop_single: "js_prop [(k', v)] k = (if k = k' then Some v else None)"
  by (simp add: js_prop_def)

lemma js_prop_defaults:
  "js_prop (codec_defaults_output c a f) ''crf'' = Some (JNum (vc_default_crf c))"
  "js_prop (codec_defaults_output c a f) ''preset'' = Some (JStr (vc_default_preset c))"
  "js_prop (codec_defaults_output c a f) ''width'' = Some (JNum (vc_default_width c))"
  "js_prop (codec_defaults_output c a f) ''height'' = Some (JNum (vc_default_height c))"
  "js_prop (codec_defaults_output c a f) ''framerate'' = None"
  "js_prop (codec_defaults_output c a f) ''additionalArgs'' = None"
  by (simp_all add: js_prop_def codec_defaults_output_def)

lemma own_audio_codec:
  "js_get AUDIO_CODECS k = Own a \<Longrightarrow> ac_default_bitrate a \<noteq> []"
  by (auto simp: js_get_def AUDIO_CODECS_def split: if_splits option.splits)

lemma unknown_preset_literal:
  assumes "js_get VIDEO_CODECS vk = Own c" "js_get AUDIO_CODECS ak = Own a"
  shows "build_object
           [(''videoCodec'', Inr (codec_name (Own c) vc_name)),
            (''audioCodec'', Inr (codec_name (Own a) ac_name)),
            (''format'', Inr (Some (JStr format))),
            (''crf'', or_else (preset_num Undefined qp_crf)
               (codec_default (Own c) (\<lambda>c. JNum (vc_default_crf c)) ''crf'')),
            (''preset'', or_else (preset_str Undefined qp_preset)
               (codec_default (Own c) (\<lambda>c. JStr (vc_default_preset c)) ''preset'')),
            (''width'', or_else (preset_num Undefined qp_width)
               (codec_default (Own c) (\<lambda>c. JNum (vc_default_width c)) ''width'')),
            (''height'', or_else (preset_num Undefined qp_height)
               (codec_default (Own c) (\<lambda>c. JNum (vc_default_height c)) ''height'')),
            (''audioBitrate'', or_else None
               (codec_default (Own a) (\<lambda>c. JStr (ac_default_bitrate c)) ''bitrate''))]
         = Inr (codec_defaults_output c a format)"
  by (simp add: codec_name_def or_else_def preset_num_def preset_str_def codec_default_def
      codec_defaults_output_def)

lemma unknown_preset_result:
  assumes "unknown_preset_request opts c a"
  shows "createTranscodingConfig opts =
     (let output = codec_defaults_output c a
                     (case opt_format opts of None \<Rightarrow> ''mp4'' | Some f \<Rightarrow> f)
                   @ opt_advanced opts;
          filterArgs = generateVideoFilters (opt_filters opts)
      in case (if filterArgs \<noteq> [] then
                 (case concat_args (js_prop output ''additionalArgs'') filterArgs of
                    Inl e \<Rightarrow> Inl e
                  | Inr v \<Rightarrow> Inr (output @ [(''additionalArgs'', v)]))
               else Inr output) of
           Inl e \<Rightarrow> Inl e
         | Inr output' \<Rightarrow>
             (case validateOutput output' of
                Inl e \<Rightarrow> Inl e
              | Inr u \<Rightarrow> Inr \<lparr>cfg_input_path = the (opt_input_path opts),
                               cfg_output = output'\<rparr>))"
  using assms unknown_preset_literal [of "videoCodec_name opts" c "audioCodec_name opts" a]
  by (simp add: unknown_preset_request_def createTranscodingConfig_def
      createTranscodingConfigFrom_def quality_name_def videoCodec_name_def audioCodec_name_def
      Let_def)

lemma unknown_preset_accepted_output:
  assumes req: "unknown_preset_request opts c a"
    and ok: "createTranscodingConfig opts = Inr cfg"
  shows "validateOutput (cfg_output cfg) = Inr ()"
    and "k \<noteq> ''additionalArgs'' \<Longrightarrow>
           js_prop (cfg_output cfg) k =
             (case js_prop (opt_advanced opts) k of
                None \<Rightarrow> js_prop (codec_defaults_output c a
                           (case opt_format opts of None \<Rightarrow> ''mp4'' | Some f \<Rightarrow> f)) k
              | Some v \<Rightarrow> Some v)"
  using ok unfolding unknown_preset_result [OF req]
  by (auto simp: Let_def js_prop_append js_prop_single
      elim!: sum_bind_InrE split: if_splits)

lemma unknown_preset_needs_quality:
  assumes req: "unknown_preset_request opts c a"
    and ok: "createTranscodingConfig opts = Inr cfg"
  shows "js_prop (opt_advanced opts) ''crf'' \<noteq> None"
proof
  assume none: "js_prop (opt_advanced opts) ''crf'' = None"
  have c: "vc_default_crf c = 60"
    using req own_video_codec by (auto simp: unknown_preset_request_def)
  have "js_prop (cfg_output cfg) ''crf'' = Some (JNum 60)"
    using unknown_preset_accepted_output(2) [OF req ok, of "''crf''"] none c
    by (simp add: js_prop_defaults)
  then show False
    using unknown_preset_accepted_output(1) [OF req ok] by (simp add: validateOutput_ok)
qed

lemma unknown_preset_defaults_taken:
  assumes req: "unknown_preset_request opts c a"
    and ok: "createTranscodingConfig opts = Inr cfg"
  shows "js_prop (opt_advanced opts) ''width'' = None \<Longrightarrow>
           js_prop (cfg_output cfg) ''width'' = Some (JNum (vc_default_width c))"
    and "js_prop (opt_advanced opts) ''height'' = None \<Longrightarrow>
           js_prop (cfg_output cfg) ''height'' = Some (JNum (vc_default_height c))"
    and "js_prop (opt_advanced opts) ''preset'' = None \<Longrightarrow>
           js_prop (cfg_output cfg) ''preset'' = Some (JStr (vc_default_preset c))"
  using unknown_preset_accepted_output(2) [OF req ok, of "''width''"]
    unknown_preset_accepted_output(2) [OF req ok, of "''height''"]
    unknown_preset_accepted_output(2) [OF req ok, of "''preset''"]
  by (simp_all add: js_prop_defaults)

lemma unknown_preset_plain_output:
  assumes req: "unknown_preset_request opts c a"
    and plain: "plain_override (opt_advanced opts)"
  shows "\<exists>output'.
           createTranscodingConfig opts =
             (case validateOutput output' of
                Inl e \<Rightarrow> Inl e
              | Inr u \<Rightarrow> Inr \<lparr>cfg_input_path = the (opt_input_path opts),
                               cfg_output = output'\<rparr>) \<and>
           js_prop output' ''width'' = Some (JNum 896) \<and>
           js_prop output' ''height'' = Some (JNum 504) \<and>
           js_prop output' ''framerate'' = None \<and>
           js_prop output' ''crf'' =
             (case js_prop (opt_advanced opts) ''crf'' of
                None \<Rightarrow> Some (JNum 60) | Some v \<Rightarrow> Some v)"
proof -
  have c: "vc_default_crf c = 60" "vc_default_width c = 896" "vc_default_height c = 504"
    using req own_video_codec by (auto simp: unknown_preset_request_def)
  show ?thesis
    using plain c unfolding unknown_preset_result [OF req] plain_override_def
    by (auto simp: Let_def js_prop_append js_prop_single js_prop_defaults concat_args_def
        split: option.splits)
qed

lemma unknown_preset_with_quality:
  assumes req: "unknown_preset_request opts c a"
    and plain: "plain_override (opt_advanced opts)"
    and q: "js_prop (opt_advanced opts) ''crf'' = Some (JNum q)" "0 \<le> q" "q \<le> 51"
  shows "\<exists>cfg. createTranscodingConfig opts = Inr cfg \<and>
           js_prop (cfg_output cfg) ''width'' = Some (JNum (vc_default_width c)) \<and>
           js_prop (cfg_output cfg) ''height'' = Some (JNum (vc_default_height c)) \<and>
           js_prop (cfg_output cfg) ''crf'' = Some (JNum q)"
proof -
  have c: "vc_default_width c = 896" "vc_default_height c = 504"
    using req own_video_codec by (auto simp: unknown_preset_request_def)
  from unknown_preset_plain_output [OF req plain] obtain output' where
    r: "createTranscodingConfig opts =
             (case validateOutput output' of
                Inl e \<Rightarrow> Inl e
              | Inr u \<Rightarrow> Inr \<lparr>cfg_input_path = the (opt_input_path opts),
                               cfg_output = output'\<rparr>)"
    and p: "js_prop output' ''width'' = Some (JNum 896)"
      "js_prop output' ''height'' = Some (JNum 504)"
      "js_prop output' ''framerate'' = None"
      "js_prop output' ''crf'' = Some (JNum q)"
    using q(1) by auto
  have "validateOutput output' = Inr ()"
    using p q(2,3) by (simp add: validateOutput_ok not_positive_def)
  then show ?thesis using r p c by simp
qed

lemma unknown_preset_without_quality:
  assumes req: "unknown_preset_request opts c a"
    and plain: "plain_override (opt_advanced opts)"
    and q: "js_prop (opt_advanced opts) ''crf'' = None"
  shows "createTranscodingConfig opts = Inl (Error ''CRF must be a number between 0 and 51'')"
proof -
  from unknown_preset_plain_output [OF req plain] obtain output' where
    r: "createTranscodingConfig opts =
             (case validateOutput output' of
                Inl e \<Rightarrow> Inl e
              | Inr u \<Rightarrow> Inr \<lparr>cfg_input_path = the (opt_input_path opts),
                               cfg_output = output'\<rparr>)"
    and p: "js_prop output' ''width'' = Some (JNum 896)"
      "js_prop output' ''height'' = Some (JNum 504)"
      "js_prop output' ''framerate'' = None"
      "js_prop output' ''crf'' = Some (JNum 60)"
    using q by auto
  have "validateOutput output' = Inl (Error ''CRF must be a number between 0 and 51'')"
    using p by (simp add: validateOutput_def Let_def)
  then show ?thesis using r by simp
qed

lemma unknown_preset_empty_override:
  assumes "validateInput (opt_input_path opts) = Inr ()"
    and "js_get QUALITY_TO_PRESETS (quality_name opts) = Undefined"
    and "js_get VIDEO_CODECS (videoCodec_name opts) = Own c"
    and "js_get AUDIO_CODECS (audioCodec_name opts) = Own a"
  shows "opt_filters opts = [] \<Longrightarrow> createTranscodingConfig opts = Inl (TypeError ''filters'')"
    and "opt_filters opts \<noteq> [] \<Longrightarrow> opt_advanced opts = [] \<Longrightarrow>
           createTranscodingConfig opts = Inl (TypeError ''advanced'')"
  using assms
  by (simp_all add: createTranscodingConfig_def createTranscodingConfigFrom_def quality_name_def
      videoCodec_name_def audioCodec_name_def Let_def)

lemma fps_unchecked:
  "n \<noteq> 0 \<Longrightarrow> generateVideoFilters [Fps n] = [''-vf'', ''fps='' @ show_int n]"
  by (simp add: generateVideoFilters_def filterChain_def scale_part_def fps_part_def
      deinterlace_part_def denoise_part_def crop_part_def pad_part_def custom_part_def
      filter_prop_def)

text \<open>
  Claim C9, amended. Whenever the resolver returns a configuration, each of the merged
  \<open>output.width\<close>, \<open>output.height\<close> and \<open>output.framerate\<close> that is truthy is a number
  above zero, and a truthy quality parameter is a number from 0 to 51, which lies within
  the quality bound of the chosen codec. A truthy width, height or framerate that is not
  a number above zero, and a truthy quality parameter that is not a number from 0 to 51
  (in particular one outside the codec's bound), make \<open>validateOutput\<close> fail with the
  message that names the field (the first offending one in this order). Only truthy
  values are checked: an output whose width, height, framerate and quality are all
  absent or falsy (0, \<open>null\<close>) passes, and the resolver accepts an advanced override with
  quality \<open>null\<close> and width 0. The frame rate of the filter override is not validated:
  any non-zero \<open>filters.fps\<close> is written into the filter chain, and the resolver accepts
  \<open>fps\<close> = -5. A codec name that resolves to nothing is a failure naming the codec. A
  preset name that resolves to nothing is not by itself a failure when both overrides are
  non-empty: width, height and speed, where the advanced override does not set them, are
  then the codec's defaults; the codec's default quality 60 does not pass the validator,
  so such a request is accepted only if the advanced override sets the quality, it is
  accepted with the codec's default size when the override sets a quality from 0 to 51
  and no width, height, framerate or additional arguments, and it fails with the quality
  message when the override sets none of these and no quality. With an empty filter
  override, or an empty advanced override, a preset name that resolves to nothing makes
  the resolver fail with the TypeError of reading \<open>filters\<close>, or \<open>advanced\<close>, of
  \<open>undefined\<close>, which does not name the preset.
\<close>

theorem resolver_validation:
  "(createTranscodingConfig opts = Inr cfg \<longrightarrow>
      \<not> not_positive (js_prop (cfg_output cfg) ''width'') \<and>
      \<not> not_positive (js_prop (cfg_output cfg) ''height'') \<and>
      \<not> not_positive (js_prop (cfg_output cfg) ''framerate'') \<and>
      (truthy (js_prop (cfg_output cfg) ''crf'') \<longrightarrow>
         is_number (js_prop (cfg_output cfg) ''crf'') \<and>
         0 \<le> number_of (js_prop (cfg_output cfg) ''crf'') \<and>
         number_of (js_prop (cfg_output cfg) ''crf'') \<le> 51 \<and>
         (\<forall>c. js_get VIDEO_CODECS (videoCodec_name opts) = Own c \<longrightarrow>
            vc_quality_min c \<le> number_of (js_prop (cfg_output cfg) ''crf'') \<and>
            number_of (js_prop (cfg_output cfg) ''crf'') \<le> vc_quality_max c))) \<and>
   (not_positive (js_prop out ''width'') \<longrightarrow>
      validateOutput out = Inl (Error ''Output width must be a positive number'')) \<and>
   (\<not> not_positive (js_prop out ''width'') \<longrightarrow> not_positive (js_prop out ''height'') \<longrightarrow>
      validateOutput out = Inl (Error ''Output height must be a positive number'')) \<and>
   (\<not> not_positive (js_prop out ''width'') \<longrightarrow> \<not> not_positive (js_prop out ''height'') \<longrightarrow>
    not_positive (js_prop out ''framerate'') \<longrightarrow>
      validateOutput out = Inl (Error ''Output framerate must be a positive number'')) \<and>
   (\<not> not_positive (js_prop out ''width'') \<longrightarrow> \<not> not_positive (js_prop out ''height'') \<longrightarrow>
    \<not> not_positive (js_prop out ''framerate'') \<longrightarrow> truthy (js_prop out ''crf'') \<longrightarrow>
    (\<not> is_number (js_prop out ''crf'') \<or> number_of (js_prop out ''crf'') < 0 \<or>
     51 < number_of (js_prop out ''crf'') \<or>
     (\<exists>k codec. js_get VIDEO_CODECS k = Own codec \<and>
        (number_of (js_prop out ''crf'') < vc_quality_min codec \<or>
         vc_quality_max codec < number_of (js_prop out ''crf'')))) \<longrightarrow>
      validateOutput out = Inl (Error ''CRF must be a number between 0 and 51'')) \<and>
   (\<not> truthy (js_prop out ''width'') \<longrightarrow> \<not> truthy (js_prop out ''height'') \<longrightarrow>
    \<not> truthy (js_prop out ''framerate'') \<longrightarrow> \<not> truthy (js_prop out ''crf'') \<longrightarrow>
      validateOutput out = Inr ()) \<and>
   (\<exists>cfg'. createTranscodingConfig falsy_options = Inr cfg' \<and>
      js_prop (cfg_output cfg') ''crf'' = Some JNull \<and>
      js_prop (cfg_output cfg') ''width'' = Some (JNum 0)) \<and>
   (n \<noteq> 0 \<longrightarrow> generateVideoFilters [Fps n] = [''-vf'', ''fps='' @ show_int n]) \<and>
   (\<exists>cfg'. createTranscodingConfig negative_fps_options = Inr cfg' \<and>
      js_prop (cfg_output cfg') ''framerate'' = None \<and>
      (\<exists>args. js_prop (cfg_output cfg') ''additionalArgs'' = Some (JArr (args @ [''-vf'', ''fps=-5''])))) \<and>
   (validateInput (opt_input_path opts) = Inr () \<longrightarrow>
    js_get VIDEO_CODECS (videoCodec_name opts) = Undefined \<longrightarrow>
      createTranscodingConfig opts =
        Inl (Error (''Unsupported video codec: '' @ videoCodec_name opts))) \<and>
   (unknown_preset_request opts c a \<longrightarrow> createTranscodingConfig opts = Inr cfg \<longrightarrow>
      js_prop (opt_advanced opts) ''crf'' \<noteq> None \<and>
      (js_prop (opt_advanced opts) ''width'' = None \<longrightarrow>
         js_prop (cfg_output cfg) ''width'' = Some (JNum (vc_default_width c))) \<and>
      (js_prop (opt_advanced opts) ''height'' = None \<longrightarrow>
         js_prop (cfg_output cfg) ''height'' = Some (JNum (vc_default_height c))) \<and>
      (js_prop (opt_advanced opts) ''preset'' = None \<longrightarrow>
         js_prop (cfg_output cfg) ''preset'' = Some (JStr (vc_default_preset c)))) \<and>
   (unknown_preset_request opts c a \<longrightarrow> plain_override (opt_advanced opts) \<longrightarrow>
    js_prop (opt_advanced opts) ''crf'' = Some (JNum q) \<longrightarrow> 0 \<le> q \<longrightarrow> q \<le> 51 \<longrightarrow>
      (\<exists>cfg'. createTranscodingConfig opts = Inr cfg' \<and>
         js_prop (cfg_output cfg') ''width'' = Some (JNum (vc_default_width c)) \<and>
         js_prop (cfg_output cfg') ''height'' = Some (JNum (vc_default_height c)) \<and>
         js_prop (cfg_output cfg') ''crf'' = Some (JNum q))) \<and>
   (unknown_preset_request opts c a \<longrightarrow> plain_override (opt_advanced opts) \<longrightarrow>
    js_prop (opt_advanced opts) ''crf'' = None \<longrightarrow>
      createTranscodingConfig opts = Inl (Error ''CRF must be a number between 0 and 51'')) \<and>
   (validateInput (opt_input_path opts) = Inr () \<longrightarrow>
    js_get QUALITY_TO_PRESETS (quality_name opts) = Undefined \<longrightarrow>
    js_get VIDEO_CODECS (videoCodec_name opts) = Own c \<longrightarrow>
    js_get AUDIO_CODECS (audioCodec_name opts) = Own a \<longrightarrow>
      (opt_filters opts = [] \<longrightarrow>
         createTranscodingConfig opts = Inl (TypeError ''filters'')) \<and>
      (opt_filters opts \<noteq> [] \<longrightarrow> opt_advanced opts = [] \<longrightarrow>
         createTranscodingConfig opts = Inl (TypeError ''advanced'')))"
proof (intro conjI impI allI)
  assume ok: "createTranscodingConfig opts = Inr cfg"
  then have v: "validateOutput (cfg_output cfg) = Inr ()"
    unfolding createTranscodingConfig_def by (rule accepted_validated)
  from v show "\<not> not_positive (js_prop (cfg_output cfg) ''width'')"
    by (simp add: validateOutput_ok)
  from v show "\<not> not_positive (js_prop (cfg_output cfg) ''height'')"
    by (simp add: validateOutput_ok)
  from v show "\<not> not_positive (js_prop (cfg_output cfg) ''framerate'')"
    by (simp add: validateOutput_ok)
  assume t: "truthy (js_prop (cfg_output cfg) ''crf'')"
  with v show "is_number (js_prop (cfg_output cfg) ''crf'')"
    by (simp add: validateOutput_ok)
  from v t show "0 \<le> number_of (js_prop (cfg_output cfg) ''crf'')"
    by (simp add: validateOutput_ok)
  from v t show "number_of (js_prop (cfg_output cfg) ''crf'') \<le> 51"
    by (simp add: validateOutput_ok)
  fix c assume "js_get VIDEO_CODECS (videoCodec_name opts) = Own c"
  then have b: "vc_quality_min c = 0" "vc_quality_max c = 63"
    using own_video_codec by blast+
  from v t b show "vc_quality_min c \<le> number_of (js_prop (cfg_output cfg) ''crf'')"
    by (simp add: validateOutput_ok)
  from v t b show "number_of (js_prop (cfg_output cfg) ''crf'') \<le> vc_quality_max c"
    by (simp add: validateOutput_ok)
next
  assume "not_positive (js_prop out ''width'')"
  then show "validateOutput out = Inl (Error ''Output width must be a positive number'')"
    by (simp add: validateOutput_def Let_def not_positive_def)
next
  assume "\<not> not_positive (js_prop out ''width'')" "not_positive (js_prop out ''height'')"
  then show "validateOutput out = Inl (Error ''Output height must be a positive number'')"
    by (simp add: validateOutput_def Let_def not_positive_def)
next
  assume "\<not> not_positive (js_prop out ''width'')" "\<not> not_positive (js_prop out ''height'')"
    "not_positive (js_prop out ''framerate'')"
  then show "validateOutput out = Inl (Error ''Output framerate must be a positive number'')"
    by (simp add: validateOutput_def Let_def not_positive_def)
next
  assume np: "\<not> not_positive (js_prop out ''width'')" "\<not> not_positive (js_prop out ''height'')"
    "\<not> not_positive (js_prop out ''framerate'')" "truthy (js_prop out ''crf'')"
    and bad: "\<not> is_number (js_prop out ''crf'') \<or> number_of (js_prop out ''crf'') < 0 \<or>
     51 < number_of (js_prop out ''crf'') \<or>
     (\<exists>k codec. js_get VIDEO_CODECS k = Own codec \<and>
        (number_of (js_prop out ''crf'') < vc_quality_min codec \<or>
         vc_quality_max codec < number_of (js_prop out ''crf'')))"
  have "\<not> is_number (js_prop out ''crf'') \<or> number_of (js_prop out ''crf'') < 0 \<or>
     51 < number_of (js_prop out ''crf'')"
    using bad own_video_codec by fastforce
  with np show "validateOutput out = Inl (Error ''CRF must be a number between 0 and 51'')"
    by (auto simp: validateOutput_def Let_def not_positive_def)
next
  assume "\<not> truthy (js_prop out ''width'')" "\<not> truthy (js_prop out ''height'')"
    "\<not> truthy (js_prop out ''framerate'')" "\<not> truthy (js_prop out ''crf'')"
  then show "validateOutput out = Inr ()"
    by (simp add: validateOutput_def Let_def)
next
  have "createTranscodingConfig falsy_options =
     Inr \<lparr>cfg_input_path = ''/app/temp/input_7_video.mp4'',
          cfg_output =
            [(''videoCodec'', JStr ''libsvtav1''), (''audioCodec'', JStr ''aac''),
             (''format'', JStr ''mp4''), (''crf'', JNum 49), (''preset'', JStr ''12''),
             (''width'', JNum 1280), (''height'', JNum 720), (''audioBitrate'', JStr ''96k''),
             (''crf'', JNull), (''width'', JNum 0),
             (''additionalArgs'', JArr [''-vf'', ''fps=30''])]\<rparr>"
    by code_simp
  then show "\<exists>cfg'. createTranscodingConfig falsy_options = Inr cfg' \<and>
      js_prop (cfg_output cfg') ''crf'' = Some JNull \<and>
      js_prop (cfg_output cfg') ''width'' = Some (JNum 0)"
    by (simp add: js_prop_def)
next
  assume "n \<noteq> 0"
  then show "generateVideoFilters [Fps n] = [''-vf'', ''fps='' @ show_int n]"
    by (rule fps_unchecked)
next
  have "createTranscodingConfig negative_fps_options =
     Inr \<lparr>cfg_input_path = ''/app/temp/input_7_video.mp4'',
          cfg_output =
            [(''videoCodec'', JStr ''libsvtav1''), (''audioCodec'', JStr ''aac''),
             (''format'', JStr ''mp4''), (''crf'', JNum 49), (''preset'', JStr ''12''),
             (''width'', JNum 1280), (''height'', JNum 720), (''audioBitrate'', JStr ''96k''),
             (''additionalArgs'',
              JArr [''-svtav1-params'',
                ''hierarchical-levels=2:keyint=90:lookahead=11:lp=10:scm=0:enable-tf=0'']),
             (''additionalArgs'',
              JArr ([''-svtav1-params'',
                ''hierarchical-levels=2:keyint=90:lookahead=11:lp=10:scm=0:enable-tf=0'']
                @ [''-vf'', ''fps=-5'']))]\<rparr>"
    by code_simp
  then show "\<exists>cfg'. createTranscodingConfig negative_fps_options = Inr cfg' \<and>
      js_prop (cfg_output cfg') ''framerate'' = None \<and>
      (\<exists>args. js_prop (cfg_output cfg') ''additionalArgs'' = Some (JArr (args @ [''-vf'', ''fps=-5''])))"
    by (simp add: js_prop_def)
next
  assume "validateInput (opt_input_path opts) = Inr ()"
    "js_get VIDEO_CODECS (videoCodec_name opts) = Undefined"
  then show "createTranscodingConfig opts =
        Inl (Error (''Unsupported video codec: '' @ videoCodec_name opts))"
    unfolding createTranscodingConfig_def by (rule unknown_codec_rejected)
next
  assume req: "unknown_preset_request opts c a" and ok: "createTranscodingConfig opts = Inr cfg"
  show "js_prop (opt_advanced opts) ''crf'' \<noteq> None"
    using req ok by (rule unknown_preset_needs_quality)
  show "js_prop (cfg_output cfg) ''width'' = Some (JNum (vc_default_width c))"
    if "js_prop (opt_advanced opts) ''width'' = None"
    using req ok that by (rule unknown_preset_defaults_taken)
  show "js_prop (cfg_output cfg) ''height'' = Some (JNum (vc_default_height c))"
    if "js_prop (opt_advanced opts) ''height'' = None"
    using req ok that by (rule unknown_preset_defaults_taken)
  show "js_prop (cfg_output cfg) ''preset'' = Some (JStr (vc_default_preset c))"
    if "js_prop (opt_advanced opts) ''preset'' = None"
    using req ok that by (rule unknown_preset_defaults_taken)
next
  assume "unknown_preset_request opts c a" "plain_override (opt_advanced opts)"
    "js_prop (opt_advanced opts) ''crf'' = Some (JNum q)" "0 \<le> q" "q \<le> 51"
  then show "\<exists>cfg'. createTranscodingConfig opts = Inr cfg' \<and>
         js_prop (cfg_output cfg') ''width'' = Some (JNum (vc_default_width c)) \<and>
         js_prop (cfg_output cfg') ''height'' = Some (JNum (vc_default_height c)) \<and>
         js_prop (cfg_output cfg') ''crf'' = Some (JNum q)"
    by (rule unknown_preset_with_quality)
next
  assume "unknown_preset_request opts c a" "plain_override (opt_advanced opts)"
    "js_prop (opt_advanced opts) ''crf'' = None"
  then show "createTranscodingConfig opts = Inl (Error ''CRF must be a number between 0 and 51'')"
    by (rule unknown_preset_without_quality)
next
  assume a: "validateInput (opt_input_path opts) = Inr ()"
    "js_get QUALITY_TO_PRESETS (quality_name opts) = Undefined"
    "js_get VIDEO_CODECS (videoCodec_name opts) = Own c"
    "js_get AUDIO_CODECS (audioCodec_name opts) = Own a"
  show "createTranscodingConfig opts = Inl (TypeError ''filters'')"
    if "opt_filters opts = []"
    using a that by (rule unknown_preset_empty_override)
  show "createTranscodingConfig opts = Inl (TypeError ''advanced'')"
    if "opt_filters opts \<noteq> []" "opt_advanced opts = []"
    using a that by (rule unknown_preset_empty_override)
qed

lemma example_plain_config: "createTranscodingConfig plain_options = Inr plain_config"
  by code_simp

theorem resolver_validation_witness:
  "createTranscodingConfig plain_options = Inr plain_config \<and>
   \<not> not_positive (js_prop (cfg_output plain_config) ''width'') \<and>
   is_number (js_prop (cfg_output plain_config) ''crf'') \<and>
   number_of (js_prop (cfg_output plain_config) ''crf'') \<le> 51 \<and>
   number_of (js_prop (cfg_output plain_config) ''crf'') \<le> vc_quality_max (snd (hd VIDEO_CODECS)) \<and>
   validateOutput [(''width'', JNum (- 640))]
     = Inl (Error ''Output width must be a positive number'') \<and>
   validateOutput [(''width'', JNum 640), (''height'', JStr ''tall'')]
     = Inl (Error ''Output height must be a positive number'') \<and>
   validateOutput [(''framerate'', JNum (- 24))]
     = Inl (Error ''Output framerate must be a positive number'') \<and>
   validateOutput [(''crf'', JNum 55)] = Inl (Error ''CRF must be a number between 0 and 51'') \<and>
   validateOutput [(''crf'', JNull), (''width'', JNum 0)] = Inr () \<and>
   generateVideoFilters [Fps (- 5)] = [''-vf'', ''fps=-5''] \<and>
   createTranscodingConfig (plain_options\<lparr>opt_videoCodec := Some ''h264''\<rparr>)
     = Inl (Error (''Unsupported video codec: '' @ ''h264'')) \<and>
   unknown_preset_request mystery_options (snd (hd VIDEO_CODECS)) (snd (hd AUDIO_CODECS)) \<and>
   (\<exists>cfg. createTranscodingConfig mystery_options = Inr cfg \<and>
      js_prop (cfg_output cfg) ''width'' = Some (JNum 896) \<and>
      js_prop (cfg_output cfg) ''height'' = Some (JNum 504) \<and>
      js_prop (cfg_output cfg) ''crf'' = Some (JNum 30)) \<and>
   js_prop (opt_advanced mystery_options) ''crf'' \<noteq> None \<and>
   unknown_preset_request speed_only_options (snd (hd VIDEO_CODECS)) (snd (hd AUDIO_CODECS)) \<and>
   createTranscodingConfig speed_only_options
     = Inl (Error ''CRF must be a number between 0 and 51'') \<and>
   createTranscodingConfig (mystery_options\<lparr>opt_filters := []\<rparr>) = Inl (TypeError ''filters'') \<and>
   createTranscodingConfig (mystery_options\<lparr>opt_advanced := []\<rparr>)
     = Inl (TypeError ''advanced'')"
proof -
  have av1: "js_get VIDEO_CODECS ''av1'' = Own (snd (hd VIDEO_CODECS))" by code_simp
  have names: "videoCodec_name plain_options = ''av1''"
    "videoCodec_name (plain_options\<lparr>opt_videoCodec := Some ''h264''\<rparr>) = ''h264''"
    by code_simp+
  have crf: "truthy (js_prop (cfg_output plain_config) ''crf'')" by code_simp
  note accepted = resolver_validation [where opts = plain_options and cfg = plain_config,
      THEN conjunct1, rule_format, OF example_plain_config]
  have w1: "\<not> not_positive (js_prop (cfg_output plain_config) ''width'')"
    using accepted by blast
  have w2: "is_number (js_prop (cfg_output plain_config) ''crf'')"
    using accepted crf by blast
  have w3: "number_of (js_prop (cfg_output plain_config) ''crf'') \<le> 51"
    using accepted crf by blast
  have w3': "number_of (js_prop (cfg_output plain_config) ''crf'')
              \<le> vc_quality_max (snd (hd VIDEO_CODECS))"
    using accepted crf av1 names(1) by simp
  have bad_width: "not_positive (js_prop [(''width'', JNum (- 640))] ''width'')" by code_simp
  have w4: "validateOutput [(''width'', JNum (- 640))]
     = Inl (Error ''Output width must be a positive number'')"
    using resolver_validation [where out = "[(''width'', JNum (- 640))]", THEN conjunct2, THEN conjunct1, rule_format] bad_width
    by blast
  have bad_height: "\<not> not_positive (js_prop [(''width'', JNum 640), (''height'', JStr ''tall'')] ''width'')"
    "not_positive (js_prop [(''width'', JNum 640), (''height'', JStr ''tall'')] ''height'')"
    by code_simp+
  have w4h: "validateOutput [(''width'', JNum 640), (''height'', JStr ''tall'')]
     = Inl (Error ''Output height must be a positive number'')"
    using resolver_validation [where out = "[(''width'', JNum 640), (''height'', JStr ''tall'')]",
        THEN conjunct2, THEN conjunct2, THEN conjunct1, rule_format, OF bad_height] .
  have bad_rate: "\<not> not_positive (js_prop [(''framerate'', JNum (- 24))] ''width'')"
    "\<not> not_positive (js_prop [(''framerate'', JNum (- 24))] ''height'')"
    "not_positive (js_prop [(''framerate'', JNum (- 24))] ''framerate'')"
    by code_simp+
  have w4f: "validateOutput [(''framerate'', JNum (- 24))]
     = Inl (Error ''Output framerate must be a positive number'')"
    using resolver_validation [where out = "[(''framerate'', JNum (- 24))]",
        THEN conjunct2, THEN conjunct2, THEN conjunct2, THEN conjunct1, rule_format, OF bad_rate] .
  have bad_crf: "\<not> not_positive (js_prop [(''crf'', JNum 55)] ''width'')"
    "\<not> not_positive (js_prop [(''crf'', JNum 55)] ''height'')"
    "\<not> not_positive (js_prop [(''crf'', JNum 55)] ''framerate'')"
    "truthy (js_prop [(''crf'', JNum 55)] ''crf'')"
    "51 < number_of (js_prop [(''crf'', JNum 55)] ''crf'')"
    by code_simp+
  have w5: "validateOutput [(''crf'', JNum 55)] = Inl (Error ''CRF must be a number between 0 and 51'')"
    using resolver_validation [where out = "[(''crf'', JNum 55)]", THEN conjunct2, THEN conjunct2, THEN conjunct2, THEN conjunct2, THEN conjunct1, rule_format] bad_crf
    by blast
  have falsy: "\<not> truthy (js_prop [(''crf'', JNull), (''width'', JNum 0)] ''width'')"
    "\<not> truthy (js_prop [(''crf'', JNull), (''width'', JNum 0)] ''height'')"
    "\<not> truthy (js_prop [(''crf'', JNull), (''width'', JNum 0)] ''framerate'')"
    "\<not> truthy (js_prop [(''crf'', JNull), (''width'', JNum 0)] ''crf'')"
    by code_simp+
  have w6: "validateOutput [(''crf'', JNull), (''width'', JNum 0)] = Inr ()"
    using resolver_validation [where out = "[(''crf'', JNull), (''width'', JNum 0)]", THEN conjunct2, THEN conjunct2, THEN conjunct2, THEN conjunct2, THEN conjunct2, THEN conjunct1, rule_format]
      falsy by blast
  have minus5: "''fps='' @ show_int (- 5) = ''fps=-5''" by code_simp
  have w7: "generateVideoFilters [Fps (- 5)] = [''-vf'', ''fps=-5'']"
    using resolver_validation [where n = "- 5", THEN conjunct2, THEN conjunct2, THEN conjunct2, THEN conjunct2, THEN conjunct2, THEN conjunct2, THEN conjunct2, THEN conjunct1, rule_format] minus5 by simp
  have path: "validateInput (opt_input_path (plain_options\<lparr>opt_videoCodec := Some ''h264''\<rparr>)) = Inr ()"
    by code_simp
  have h264: "js_get VIDEO_CODECS ''h264'' = Undefined" by code_simp
  have w8: "createTranscodingConfig (plain_options\<lparr>opt_videoCodec := Some ''h264''\<rparr>)
     = Inl (Error (''Unsupported video codec: '' @ ''h264''))"
    using resolver_validation [where opts = "plain_options\<lparr>opt_videoCodec := Some ''h264''\<rparr>",
        THEN conjunct2, THEN conjunct2, THEN conjunct2, THEN conjunct2, THEN conjunct2, THEN conjunct2, THEN conjunct2, THEN conjunct2, THEN conjunct2, THEN conjunct1, rule_format] path h264 names(2) by simp
  have req: "unknown_preset_request mystery_options (snd (hd VIDEO_CODECS)) (snd (hd AUDIO_CODECS))"
    unfolding unknown_preset_request_def by code_simp
  have plain: "plain_override (opt_advanced mystery_options)"
    "js_prop (opt_advanced mystery_options) ''crf'' = Some (JNum 30)"
    unfolding plain_override_def by code_simp+
  have dflt: "vc_default_width (snd (hd VIDEO_CODECS)) = 896"
    "vc_default_height (snd (hd VIDEO_CODECS)) = 504"
    by code_simp+
  have w9: "\<exists>cfg. createTranscodingConfig mystery_options = Inr cfg \<and>
      js_prop (cfg_output cfg) ''width'' = Some (JNum 896) \<and>
      js_prop (cfg_output cfg) ''height'' = Some (JNum 504) \<and>
      js_prop (cfg_output cfg) ''crf'' = Some (JNum 30)"
    using resolver_validation [where opts = mystery_options and c = "snd (hd VIDEO_CODECS)"
        and a = "snd (hd AUDIO_CODECS)" and q = 30, THEN conjunct2, THEN conjunct2, THEN conjunct2, THEN conjunct2, THEN conjunct2, THEN conjunct2, THEN conjunct2, THEN conjunct2, THEN conjunct2, THEN conjunct2, THEN conjunct2, THEN conjunct1, rule_format, OF req plain]
    unfolding dflt by simp
  then obtain cfg where cfg: "createTranscodingConfig mystery_options = Inr cfg" by blast
  have w10: "js_prop (opt_advanced mystery_options) ''crf'' \<noteq> None"
    using resolver_validation [where opts = mystery_options and c = "snd (hd VIDEO_CODECS)"
        and a = "snd (hd AUDIO_CODECS)" and cfg = cfg, THEN conjunct2, THEN conjunct2, THEN conjunct2, THEN conjunct2, THEN conjunct2, THEN conjunct2, THEN conjunct2, THEN conjunct2, THEN conjunct2, THEN conjunct2, THEN conjunct1, rule_format, OF req cfg] by blast
  have req2: "unknown_preset_request speed_only_options (snd (hd VIDEO_CODECS)) (snd (hd AUDIO_CODECS))"
    unfolding unknown_preset_request_def by code_simp
  have plain2: "plain_override (opt_advanced speed_only_options)"
    "js_prop (opt_advanced speed_only_options) ''crf'' = None"
    unfolding plain_override_def by code_simp+
  have w11: "createTranscodingConfig speed_only_options
     = Inl (Error ''CRF must be a number between 0 and 51'')"
    using resolver_validation [where opts = speed_only_options and c = "snd (hd VIDEO_CODECS)"
        and a = "snd (hd AUDIO_CODECS)", THEN conjunct2, THEN conjunct2, THEN conjunct2, THEN conjunct2, THEN conjunct2, THEN conjunct2, THEN conjunct2, THEN conjunct2, THEN conjunct2, THEN conjunct2, THEN conjunct2, THEN conjunct2, THEN conjunct1, rule_format, OF req2 plain2] .
  have unknown: "validateInput (opt_input_path (mystery_options\<lparr>opt_filters := []\<rparr>)) = Inr ()"
    "js_get QUALITY_TO_PRESETS (quality_name (mystery_options\<lparr>opt_filters := []\<rparr>)) = Undefined"
    "js_get VIDEO_CODECS (videoCodec_name (mystery_options\<lparr>opt_filters := []\<rparr>))
       = Own (snd (hd VIDEO_CODECS))"
    "js_get AUDIO_CODECS (audioCodec_name (mystery_options\<lparr>opt_filters := []\<rparr>))
       = Own (snd (hd AUDIO_CODECS))"
    "opt_filters (mystery_options\<lparr>opt_filters := []\<rparr>) = []"
    by code_simp+
  have w12: "createTranscodingConfig (mystery_options\<lparr>opt_filters := []\<rparr>)
     = Inl (TypeError ''filters'')"
    using resolver_validation [where opts = "mystery_options\<lparr>opt_filters := []\<rparr>"
        and c = "snd (hd VIDEO_CODECS)" and a = "snd (hd AUDIO_CODECS)",
        THEN conjunct2, THEN conjunct2, THEN conjunct2, THEN conjunct2, THEN conjunct2, THEN conjunct2, THEN conjunct2, THEN conjunct2, THEN conjunct2, THEN conjunct2, THEN conjunct2, THEN conjunct2, THEN conjunct2, rule_format,
        OF unknown(1-4), THEN conjunct1, rule_format, OF unknown(5)] .
  have unknown': "validateInput (opt_input_path (mystery_options\<lparr>opt_advanced := []\<rparr>)) = Inr ()"
    "js_get QUALITY_TO_PRESETS (quality_name (mystery_options\<lparr>opt_advanced := []\<rparr>)) = Undefined"
    "js_get VIDEO_CODECS (videoCodec_name (mystery_options\<lparr>opt_advanced := []\<rparr>))
       = Own (snd (hd VIDEO_CODECS))"
    "js_get AUDIO_CODECS (audioCodec_name (mystery_options\<lparr>opt_advanced := []\<rparr>))
       = Own (snd (hd AUDIO_CODECS))"
    "opt_filters (mystery_options\<lparr>opt_advanced := []\<rparr>) \<noteq> []"
    "opt_advanced (mystery_options\<lparr>opt_advanced := []\<rparr>) = []"
    by code_simp+
  have w13: "createTranscodingConfig (mystery_options\<lparr>opt_advanced := []\<rparr>)
     = Inl (TypeError ''advanced'')"
    using resolver_validation [where opts = "mystery_options\<lparr>opt_advanced := []\<rparr>"
        and c = "snd (hd VIDEO_CODECS)" and a = "snd (hd AUDIO_CODECS)",
        THEN conjunct2, THEN conjunct2, THEN conjunct2, THEN conjunct2, THEN conjunct2, THEN conjunct2, THEN conjunct2, THEN conjunct2, THEN conjunct2, THEN conjunct2, THEN conjunct2, THEN conjunct2, THEN conjunct2, rule_format,
        OF unknown'(1-4), THEN conjunct2, rule_format, OF unknown'(5,6)] .
  show ?thesis
    apply (intro conjI)
    apply (rule example_plain_config)
    apply (rule w1) apply (rule w2) apply (rule w3) apply (rule w3') apply (rule w4) apply (rule w4h) apply (rule w4f)
    apply (rule w5) apply (rule w6) apply (rule w7) apply (rule w8) apply (rule req)
    apply (rule w9) apply (rule w10) apply (rule req2) apply (rule w11)
    apply (rule w12) apply (rule w13)
    done
qed

end
